theory Spec2Isabelle
  imports Complex_Main "HOL-Library.List_Lexorder" "HOL-Library.Product_Lexorder"
    "HOL-Library.Multiset"
begin

section \<open>Strings\<close>

text \<open>
  A Python \<open>str\<close> is a sequence of Unicode code points, and the source matches Cyrillic text,
  so a string is modelled as the list of its code points. \<open>cps\<close> writes an ASCII literal;
  text with Cyrillic letters is written as the list of its code points.
\<close>

type_synonym ustring = "nat list"

definition cps :: "string \<Rightarrow> ustring" where
  "cps s = map of_char s"

definition is_space :: "nat \<Rightarrow> bool" where
  \<comment> \<open>the whitespace of \<open>str.strip()\<close> and of the regex class \<open>\s\<close> on \<open>str\<close> patterns\<close>
  "is_space c \<longleftrightarrow>
     (9 \<le> c \<and> c \<le> 13) \<or> (28 \<le> c \<and> c \<le> 32) \<or> c = 133 \<or> c = 160 \<or> c = 5760 \<or>
     (8192 \<le> c \<and> c \<le> 8202) \<or> c = 8232 \<or> c = 8233 \<or> c = 8239 \<or> c = 8287 \<or> c = 12288"

definition strip :: "ustring \<Rightarrow> ustring" where
  "strip s = rev (dropWhile is_space (rev (dropWhile is_space s)))"

definition upper_special :: "(nat \<times> ustring) list" where
  \<comment> \<open>the code points outside Basic Latin whose upper case contains a letter of \<open>A-Z\<close>,
      with their full upper case (sharp s, dotless i, long s, ligatures, ...)\<close>
  "upper_special =
     [(223, [83, 83]), (305, [73]), (329, [700, 78]), (383, [83]), (496, [74, 780]),
      (7830, [72, 817]), (7831, [84, 776]), (7832, [87, 778]), (7833, [89, 778]),
      (7834, [65, 702]), (64256, [70, 70]), (64257, [70, 73]), (64258, [70, 76]),
      (64259, [70, 70, 73]), (64260, [70, 70, 76]), (64261, [83, 84]), (64262, [83, 84])]"

definition upper_cp :: "nat \<Rightarrow> ustring" where
  \<comment> \<open>the upper case of one code point in \<open>str.upper()\<close>: Basic Latin, Cyrillic, and the
      code points of \<open>upper_special\<close>. Every other code point is kept: neither it nor its
      upper case in Python has a character of \<open>[A-Z0-9]\<close>\<close>
  "upper_cp c =
     (if 97 \<le> c \<and> c \<le> 122 then [c - 32]
      else if 1072 \<le> c \<and> c \<le> 1103 then [c - 32]
      else if 1104 \<le> c \<and> c \<le> 1119 then [c - 80]
      else case map_of upper_special c of Some u \<Rightarrow> u | None \<Rightarrow> [c])"

definition lower_cp :: "nat \<Rightarrow> nat" where
  \<comment> \<open>\<open>str.lower()\<close> on the Basic Latin and Cyrillic blocks; other code points are kept\<close>
  "lower_cp c =
     (if 65 \<le> c \<and> c \<le> 90 then c + 32
      else if 1040 \<le> c \<and> c \<le> 1071 then c + 32
      else if 1024 \<le> c \<and> c \<le> 1039 then c + 80
      else c)"

definition upper :: "ustring \<Rightarrow> ustring" where
  "upper s = concat (map upper_cp s)"

definition lower :: "ustring \<Rightarrow> ustring" where
  "lower s = map lower_cp s"

definition is_upper_alnum :: "nat \<Rightarrow> bool" where
  \<comment> \<open>the regex class \<open>[A-Z0-9]\<close>\<close>
  "is_upper_alnum c \<longleftrightarrow> (65 \<le> c \<and> c \<le> 90) \<or> (48 \<le> c \<and> c \<le> 57)"

definition is_word_cp :: "nat \<Rightarrow> bool" where
  \<comment> \<open>the regex class \<open>[\<dots>a-z0-9]\<close> with the Cyrillic range U+0430..U+044F and U+0451\<close>
  "is_word_cp c \<longleftrightarrow>
     (1072 \<le> c \<and> c \<le> 1103) \<or> c = 1105 \<or> (97 \<le> c \<and> c \<le> 122) \<or> (48 \<le> c \<and> c \<le> 57)"

text \<open>\<open>re.findall\<close> of a one-class pattern \<open>[\<dots>]+\<close>: the maximal runs of matching code points.\<close>

fun runs :: "(nat \<Rightarrow> bool) \<Rightarrow> ustring \<Rightarrow> ustring \<Rightarrow> ustring list" where
  "runs P cur [] = (if cur = [] then [] else [cur])"
| "runs P cur (c # cs) =
     (if P c then runs P (cur @ [c]) cs
      else if cur = [] then runs P [] cs
      else cur # runs P [] cs)"

definition findall :: "(nat \<Rightarrow> bool) \<Rightarrow> ustring \<Rightarrow> ustring list" where
  "findall P s = runs P [] s"

text \<open>\<open>needle in haystack\<close> on strings.\<close>

fun contains :: "ustring \<Rightarrow> ustring \<Rightarrow> bool" where
  "contains needle [] = (needle = [])"
| "contains needle (c # cs) =
     (take (length needle) (c # cs) = needle \<or> contains needle cs)"

text \<open>
  \<open>s.replace(old, new)\<close> for a non-empty \<open>old\<close>: the occurrences are replaced from the left
  and do not overlap; the counter is the number of code points of a match still to skip.
\<close>

fun replace_go :: "ustring \<Rightarrow> ustring \<Rightarrow> nat \<Rightarrow> ustring \<Rightarrow> ustring" where
  "replace_go old new k [] = []"
| "replace_go old new (Suc k) (c # cs) = replace_go old new k cs"
| "replace_go old new 0 (c # cs) =
     (if take (length old) (c # cs) = old
      then new @ replace_go old new (length old - 1) cs
      else c # replace_go old new 0 cs)"

definition replace :: "ustring \<Rightarrow> ustring \<Rightarrow> ustring \<Rightarrow> ustring" where
  "replace old new s = replace_go old new 0 s"

text \<open>\<open>str(n)\<close> of a natural number: its decimal digits.\<close>

function str_of_nat :: "nat \<Rightarrow> ustring" where
  "str_of_nat n = (if n < 10 then [48 + n] else str_of_nat (n div 10) @ [48 + n mod 10])"
  by pat_completeness auto
termination
  by (relation "measure id") auto

declare str_of_nat.simps [simp del]

section \<open>retriever.py: code canonicalisation\<close>

text \<open>
  \<^verbatim>\<open>
  def _canon(self, code):
      c = (code or "").upper().strip()
      c = re.sub(r"[\s.]", "", c)
      return re.sub(r"[^A-Z0-9]", "", c)
  \<close>
\<close>

definition canon :: "ustring \<Rightarrow> ustring" where
  "canon code =
     (let c = strip (upper code);
          c = filter (\<lambda>x. \<not> (is_space x \<or> x = 46)) c
      in filter is_upper_alnum c)"

definition ICD_DESCRIPTIONS :: "(ustring \<times> ustring) list" where
  "ICD_DESCRIPTIONS = [
    (cps ''I44.0'',
     [1087, 1088, 1077, 1076, 1089, 1077, 1088, 1076, 1085, 1086, 45, 1078, 1077, 1083, 1091,
        1076, 1086, 1095, 1082, 1086, 1074, 1072, 1103, 32, 1073, 1083, 1086, 1082, 1072, 1076,
        1072, 32, 1087, 1077, 1088, 1074, 1086, 1081, 32, 1089, 1090, 1077, 1087, 1077, 1085, 1080,
        32, 65, 86, 32, 1073, 1083, 1086, 1082, 1072, 1076, 1072, 32, 49, 32, 1089, 1090, 1077,
        1087, 1077, 1085, 1080, 32, 1091, 1076, 1083, 1080, 1085, 1077, 1085, 1080, 1077, 32, 80,
        81, 32, 1080, 1085, 1090, 1077, 1088, 1074, 1072, 1083, 1072]),
    (cps ''I44.1'',
     [1087, 1088, 1077, 1076, 1089, 1077, 1088, 1076, 1085, 1086, 45, 1078, 1077, 1083, 1091,
        1076, 1086, 1095, 1082, 1086, 1074, 1072, 1103, 32, 1073, 1083, 1086, 1082, 1072, 1076,
        1072, 32, 1074, 1090, 1086, 1088, 1086, 1081, 32, 1089, 1090, 1077, 1087, 1077, 1085, 1080,
        32, 65, 86, 32, 1073, 1083, 1086, 1082, 1072, 1076, 1072, 32, 50, 32, 1089, 1090, 1077,
        1087, 1077, 1085, 1080, 32, 1052, 1086, 1073, 1080, 1090, 1094, 32, 1074, 1099, 1087, 1072,
        1076, 1077, 1085, 1080, 1077, 32, 81, 82, 83]),
    (cps ''I44.2'',
     [1087, 1088, 1077, 1076, 1089, 1077, 1088, 1076, 1085, 1086, 45, 1078, 1077, 1083, 1091,
        1076, 1086, 1095, 1082, 1086, 1074, 1072, 1103, 32, 1073, 1083, 1086, 1082, 1072, 1076,
        1072, 32, 1087, 1086, 1083, 1085, 1072, 1103, 32, 1090, 1088, 1077, 1090, 1100, 1103, 32,
        1089, 1090, 1077, 1087, 1077, 1085, 1100, 32, 1087, 1086, 1083, 1085, 1072, 1103, 32, 1087,
        1086, 1087, 1077, 1088, 1077, 1095, 1085, 1072, 1103, 32, 1073, 1083, 1086, 1082, 1072,
        1076, 1072]),
    (cps ''I44.3'',
     [1076, 1088, 1091, 1075, 1072, 1103, 32, 1085, 1077, 1091, 1090, 1086, 1095, 1085, 1105,
        1085, 1085, 1072, 1103, 32, 1087, 1088, 1077, 1076, 1089, 1077, 1088, 1076, 1085, 1086, 45,
        1078, 1077, 1083, 1091, 1076, 1086, 1095, 1082, 1086, 1074, 1072, 1103, 32, 1073, 1083,
        1086, 1082, 1072, 1076, 1072, 32, 65, 86]),
    (cps ''I45.2'',
     [1076, 1074, 1091, 1093, 1087, 1091, 1095, 1082, 1086, 1074, 1072, 1103, 32, 1073, 1083,
        1086, 1082, 1072, 1076, 1072, 32, 1073, 1080, 1092, 1072, 1089, 1094, 1080, 1082, 1091,
        1083, 1103, 1088, 1085, 1072, 1103, 32, 1073, 1083, 1086, 1082, 1072, 1076, 1072, 32, 1085,
        1086, 1078, 1077, 1082]),
    (cps ''I49.5'',
     [1089, 1080, 1085, 1076, 1088, 1086, 1084, 32, 1089, 1083, 1072, 1073, 1086, 1089, 1090,
        1080, 32, 1089, 1080, 1085, 1091, 1089, 1086, 1074, 1086, 1075, 1086, 32, 1091, 1079, 1083,
        1072, 32, 1057, 1057, 1057, 1059, 32, 1073, 1088, 1072, 1076, 1080, 1082, 1072, 1088, 1076,
        1080, 1103, 32, 1087, 1072, 1091, 1079, 1099]),
    (cps ''I47.1'',
     [1085, 1072, 1076, 1078, 1077, 1083, 1091, 1076, 1086, 1095, 1082, 1086, 1074, 1072, 1103,
        32, 1090, 1072, 1093, 1080, 1082, 1072, 1088, 1076, 1080, 1103, 32, 1087, 1072, 1088, 1086,
        1082, 1089, 1080, 1079, 1084]),
    (cps ''I47.2'',
     [1078, 1077, 1083, 1091, 1076, 1086, 1095, 1082, 1086, 1074, 1072, 1103, 32, 1090, 1072,
        1093, 1080, 1082, 1072, 1088, 1076, 1080, 1103, 32, 1087, 1072, 1088, 1086, 1082, 1089,
        1080, 1079, 1084]),
    (cps ''I48.0'',
     [1092, 1080, 1073, 1088, 1080, 1083, 1083, 1103, 1094, 1080, 1103, 32, 1087, 1088, 1077,
        1076, 1089, 1077, 1088, 1076, 1080, 1081, 32, 1087, 1072, 1088, 1086, 1082, 1089, 1080,
        1079, 1084, 1072, 1083, 1100, 1085, 1072, 1103, 32, 1084, 1077, 1088, 1094, 1072, 1090,
        1077, 1083, 1100, 1085, 1072, 1103, 32, 1072, 1088, 1080, 1090, 1084, 1080, 1103]),
    (cps ''I49.0'',
     [1092, 1080, 1073, 1088, 1080, 1083, 1083, 1103, 1094, 1080, 1103, 32, 1090, 1088, 1077,
        1087, 1077, 1090, 1072, 1085, 1080, 1077, 32, 1078, 1077, 1083, 1091, 1076, 1086, 1095,
        1082, 1086, 1074]),
    (cps ''K58.0'',
     [1089, 1080, 1085, 1076, 1088, 1086, 1084, 32, 1088, 1072, 1079, 1076, 1088, 1072, 1078,
        1105, 1085, 1085, 1086, 1075, 1086, 32, 1082, 1080, 1096, 1077, 1095, 1085, 1080, 1082,
        1072, 32, 1089, 32, 1076, 1080, 1072, 1088, 1077, 1077, 1081, 32, 1087, 1086, 1085, 1086,
        1089]),
    (cps ''K58.9'',
     [1089, 1080, 1085, 1076, 1088, 1086, 1084, 32, 1088, 1072, 1079, 1076, 1088, 1072, 1078,
        1105, 1085, 1085, 1086, 1075, 1086, 32, 1082, 1080, 1096, 1077, 1095, 1085, 1080, 1082,
        1072, 32, 1073, 1077, 1079, 32, 1076, 1080, 1072, 1088, 1077, 1080, 32, 1079, 1072, 1087,
        1086, 1088]),
    (cps ''K58'',
     [1089, 1080, 1085, 1076, 1088, 1086, 1084, 32, 1088, 1072, 1079, 1076, 1088, 1072, 1078,
        1105, 1085, 1085, 1086, 1075, 1086, 32, 1082, 1080, 1096, 1077, 1095, 1085, 1080, 1082,
        1072, 32, 1057, 1056, 1050, 32, 1092, 1091, 1085, 1082, 1094, 1080, 1086, 1085, 1072, 1083,
        1100, 1085, 1086, 1077, 32, 1088, 1072, 1089, 1089, 1090, 1088, 1086, 1081, 1089, 1090,
        1074, 1086]),
    (cps ''K81.0'',
     [1086, 1089, 1090, 1088, 1099, 1081, 32, 1093, 1086, 1083, 1077, 1094, 1080, 1089, 1090,
        1080, 1090, 32, 1078, 1077, 1083, 1095, 1085, 1099, 1081, 32, 1087, 1091, 1079, 1099, 1088,
        1100, 32, 1074, 1086, 1089, 1087, 1072, 1083, 1077, 1085, 1080, 1077, 32, 1086, 1089, 1090,
        1088, 1086, 1077]),
    (cps ''K81.1'',
     [1093, 1088, 1086, 1085, 1080, 1095, 1077, 1089, 1082, 1080, 1081, 32, 1093, 1086, 1083,
        1077, 1094, 1080, 1089, 1090, 1080, 1090, 32, 1078, 1077, 1083, 1095, 1085, 1099, 1081, 32,
        1087, 1091, 1079, 1099, 1088, 1100, 32, 1074, 1086, 1089, 1087, 1072, 1083, 1077, 1085,
        1080, 1077, 32, 1093, 1088, 1086, 1085, 1080, 1095, 1077, 1089, 1082, 1086, 1077]),
    (cps ''K80.0'',
     [1082, 1072, 1084, 1085, 1080, 32, 1078, 1077, 1083, 1095, 1085, 1086, 1075, 1086, 32, 1087,
        1091, 1079, 1099, 1088, 1103, 32, 1089, 32, 1086, 1089, 1090, 1088, 1099, 1084, 32, 1093,
        1086, 1083, 1077, 1094, 1080, 1089, 1090, 1080, 1090, 1086, 1084, 32, 1046, 1050, 1041]),
    (cps ''K80.1'',
     [1082, 1072, 1084, 1085, 1080, 32, 1078, 1077, 1083, 1095, 1085, 1086, 1075, 1086, 32, 1087,
        1091, 1079, 1099, 1088, 1103, 32, 1089, 32, 1076, 1088, 1091, 1075, 1080, 1084, 32, 1093,
        1086, 1083, 1077, 1094, 1080, 1089, 1090, 1080, 1090, 1086, 1084]),
    (cps ''K80.2'',
     [1082, 1072, 1084, 1085, 1080, 32, 1078, 1077, 1083, 1095, 1085, 1086, 1075, 1086, 32, 1087,
        1091, 1079, 1099, 1088, 1103, 32, 1073, 1077, 1079, 32, 1093, 1086, 1083, 1077, 1094, 1080,
        1089, 1090, 1080, 1090, 1072, 32, 1078, 1077, 1083, 1095, 1085, 1086, 1082, 1072, 1084,
        1077, 1085, 1085, 1072, 1103, 32, 1073, 1086, 1083, 1077, 1079, 1085, 1100]),
    (cps ''A03.0'',
     [1096, 1080, 1075, 1077, 1083, 1083, 1105, 1079, 32, 1074, 1099, 1079, 1074, 1072, 1085,
        1085, 1099, 1081, 32, 83, 104, 105, 103, 101, 108, 108, 97, 32, 100, 121, 115, 101, 110,
        116, 101, 114, 105, 97, 101, 32, 1076, 1080, 1079, 1077, 1085, 1090, 1077, 1088, 1080, 1103,
        32, 1082, 1088, 1086, 1074, 1100, 32, 1089, 1083, 1080, 1079, 1100]),
    (cps ''A03.9'',
     [1096, 1080, 1075, 1077, 1083, 1083, 1105, 1079, 32, 1085, 1077, 1091, 1090, 1086, 1095,
        1085, 1105, 1085, 1085, 1099, 1081, 32, 1076, 1080, 1079, 1077, 1085, 1090, 1077, 1088,
        1080, 1103]),
    (cps ''A02.0'',
     [1089, 1072, 1083, 1100, 1084, 1086, 1085, 1077, 1083, 1083, 1105, 1079, 1085, 1099, 1081,
        32, 1101, 1085, 1090, 1077, 1088, 1080, 1090, 32, 1075, 1072, 1089, 1090, 1088, 1086, 1101,
        1085, 1090, 1077, 1088, 1080, 1090, 32, 1089, 1072, 1083, 1100, 1084, 1086, 1085, 1077,
        1083, 1083, 1072]),
    (cps ''A02.1'',
     [1089, 1072, 1083, 1100, 1084, 1086, 1085, 1077, 1083, 1083, 1105, 1079, 1085, 1072, 1103,
        32, 1089, 1077, 1087, 1090, 1080, 1094, 1077, 1084, 1080, 1103, 32, 1089, 1077, 1087, 1089,
        1080, 1089]),
    (cps ''A02.2'',
     [1083, 1086, 1082, 1072, 1083, 1080, 1079, 1086, 1074, 1072, 1085, 1085, 1072, 1103, 32,
        1089, 1072, 1083, 1100, 1084, 1086, 1085, 1077, 1083, 1083, 1105, 1079, 1085, 1072, 1103,
        32, 1080, 1085, 1092, 1077, 1082, 1094, 1080, 1103]),
    (cps ''N94.3'',
     [1087, 1088, 1077, 1076, 1084, 1077, 1085, 1089, 1090, 1088, 1091, 1072, 1083, 1100, 1085,
        1099, 1081, 32, 1089, 1080, 1085, 1076, 1088, 1086, 1084, 32, 1055, 1052, 1057, 32, 1073,
        1086, 1083, 1080, 32, 1087, 1077, 1088, 1077, 1076, 32, 1084, 1077, 1085, 1089, 1090, 1088,
        1091, 1072, 1094, 1080, 1077, 1081]),
    (cps ''N94.4'',
     [1087, 1077, 1088, 1074, 1080, 1095, 1085, 1072, 1103, 32, 1076, 1080, 1089, 1084, 1077,
        1085, 1086, 1088, 1077, 1103, 32, 1073, 1086, 1083, 1077, 1079, 1085, 1077, 1085, 1085,
        1099, 1077, 32, 1084, 1077, 1085, 1089, 1090, 1088, 1091, 1072, 1094, 1080, 1080, 32, 1072,
        1083, 1100, 1075, 1086, 1076, 1080, 1089, 1084, 1077, 1085, 1086, 1088, 1077, 1103]),
    (cps ''N94.5'',
     [1074, 1090, 1086, 1088, 1080, 1095, 1085, 1072, 1103, 32, 1076, 1080, 1089, 1084, 1077,
        1085, 1086, 1088, 1077, 1103, 32, 1101, 1085, 1076, 1086, 1084, 1077, 1090, 1088, 1080,
        1086, 1079]),
    (cps ''N94.6'',
     [1076, 1080, 1089, 1084, 1077, 1085, 1086, 1088, 1077, 1103, 32, 1085, 1077, 1091, 1090,
        1086, 1095, 1085, 1105, 1085, 1085, 1072, 1103]),
    (cps ''J04.0'',
     [1086, 1089, 1090, 1088, 1099, 1081, 32, 1083, 1072, 1088, 1080, 1085, 1075, 1080, 1090, 32,
        1074, 1086, 1089, 1087, 1072, 1083, 1077, 1085, 1080, 1077, 32, 1075, 1086, 1088, 1090,
        1072, 1085, 1080, 32, 1086, 1089, 1080, 1087, 1083, 1086, 1089, 1090, 1100, 32, 1086, 1093,
        1088, 1080, 1087, 1083, 1086, 1089, 1090, 1100]),
    (cps ''J04.1'',
     [1086, 1089, 1090, 1088, 1099, 1081, 32, 1090, 1088, 1072, 1093, 1077, 1080, 1090, 32, 1074,
        1086, 1089, 1087, 1072, 1083, 1077, 1085, 1080, 1077, 32, 1090, 1088, 1072, 1093, 1077,
        1080]),
    (cps ''J04.2'',
     [1086, 1089, 1090, 1088, 1099, 1081, 32, 1083, 1072, 1088, 1080, 1085, 1075, 1086, 1090,
        1088, 1072, 1093, 1077, 1080, 1090]),
    (cps ''J02.0'',
     [1089, 1090, 1088, 1077, 1087, 1090, 1086, 1082, 1086, 1082, 1082, 1086, 1074, 1099, 1081,
        32, 1092, 1072, 1088, 1080, 1085, 1075, 1080, 1090]),
    (cps ''J02.9'',
     [1086, 1089, 1090, 1088, 1099, 1081, 32, 1092, 1072, 1088, 1080, 1085, 1075, 1080, 1090, 32,
        1085, 1077, 1091, 1090, 1086, 1095, 1085, 1105, 1085, 1085, 1099, 1081, 32, 1073, 1086,
        1083, 1100, 32, 1075, 1086, 1088, 1083, 1086]),
    (cps ''C53.0'',
     [1079, 1083, 1086, 1082, 1072, 1095, 1077, 1089, 1090, 1074, 1077, 1085, 1085, 1086, 1077,
        32, 1085, 1086, 1074, 1086, 1086, 1073, 1088, 1072, 1079, 1086, 1074, 1072, 1085, 1080,
        1077, 32, 1101, 1085, 1076, 1086, 1094, 1077, 1088, 1074, 1080, 1082, 1089, 1072, 32, 1096,
        1077, 1081, 1082, 1072, 32, 1084, 1072, 1090, 1082, 1080]),
    (cps ''C53.1'',
     [1079, 1083, 1086, 1082, 1072, 1095, 1077, 1089, 1090, 1074, 1077, 1085, 1085, 1086, 1077,
        32, 1085, 1086, 1074, 1086, 1086, 1073, 1088, 1072, 1079, 1086, 1074, 1072, 1085, 1080,
        1077, 32, 1101, 1082, 1079, 1086, 1094, 1077, 1088, 1074, 1080, 1082, 1089, 1072, 32, 1096,
        1077, 1081, 1082, 1072, 32, 1084, 1072, 1090, 1082, 1080]),
    (cps ''C53.8'',
     [1079, 1083, 1086, 1082, 1072, 1095, 1077, 1089, 1090, 1074, 1077, 1085, 1085, 1086, 1077,
        32, 1085, 1086, 1074, 1086, 1086, 1073, 1088, 1072, 1079, 1086, 1074, 1072, 1085, 1080,
        1077, 32, 1096, 1077, 1081, 1082, 1080, 32, 1084, 1072, 1090, 1082, 1080, 32, 1087, 1077,
        1088, 1077, 1082, 1088, 1105, 1089, 1090, 1085, 1086, 1077, 32, 1087, 1086, 1088, 1072,
        1078, 1077, 1085, 1080, 1077]),
    (cps ''C53.9'',
     [1079, 1083, 1086, 1082, 1072, 1095, 1077, 1089, 1090, 1074, 1077, 1085, 1085, 1086, 1077,
        32, 1085, 1086, 1074, 1086, 1086, 1073, 1088, 1072, 1079, 1086, 1074, 1072, 1085, 1080,
        1077, 32, 1096, 1077, 1081, 1082, 1080, 32, 1084, 1072, 1090, 1082, 1080, 32, 1085, 1077,
        1091, 1090, 1086, 1095, 1085, 1105, 1085, 1085, 1086, 1077, 32, 1088, 1072, 1082]),
    (cps ''L10.0'',
     [1087, 1091, 1079, 1099, 1088, 1095, 1072, 1090, 1082, 1072, 32, 1086, 1073, 1099, 1082,
        1085, 1086, 1074, 1077, 1085, 1085, 1072, 1103, 32, 1072, 1091, 1090, 1086, 1080, 1084,
        1084, 1091, 1085, 1085, 1099, 1081, 32, 1073, 1091, 1083, 1083, 1105, 1079, 1085, 1099,
        1081, 32, 1076, 1077, 1088, 1084, 1072, 1090, 1086, 1079]),
    (cps ''L10.1'',
     [1087, 1091, 1079, 1099, 1088, 1095, 1072, 1090, 1082, 1072, 32, 1074, 1077, 1075, 1077,
        1090, 1080, 1088, 1091, 1102, 1097, 1072, 1103]),
    (cps ''L12.0'',
     [1073, 1091, 1083, 1083, 1105, 1079, 1085, 1099, 1081, 32, 1087, 1077, 1084, 1092, 1080,
        1075, 1086, 1080, 1076, 32, 1074, 1086, 1083, 1076, 1099, 1088, 1080, 32, 1082, 1086, 1078,
        1072]),
    (cps ''F60.0'',
     [1087, 1072, 1088, 1072, 1085, 1086, 1080, 1076, 1085, 1086, 1077, 32, 1088, 1072, 1089,
        1089, 1090, 1088, 1086, 1081, 1089, 1090, 1074, 1086, 32, 1083, 1080, 1095, 1085, 1086,
        1089, 1090, 1080, 32, 1087, 1086, 1076, 1086, 1079, 1088, 1080, 1090, 1077, 1083, 1100,
        1085, 1086, 1089, 1090, 1100]),
    (cps ''F60.1'',
     [1096, 1080, 1079, 1086, 1080, 1076, 1085, 1086, 1077, 32, 1088, 1072, 1089, 1089, 1090,
        1088, 1086, 1081, 1089, 1090, 1074, 1086, 32, 1083, 1080, 1095, 1085, 1086, 1089, 1090,
        1080, 32, 1079, 1072, 1084, 1082, 1085, 1091, 1090, 1086, 1089, 1090, 1100]),
    (cps ''F60.2'',
     [1076, 1080, 1089, 1089, 1086, 1094, 1080, 1072, 1083, 1100, 1085, 1086, 1077, 32, 1088,
        1072, 1089, 1089, 1090, 1088, 1086, 1081, 1089, 1090, 1074, 1086, 32, 1083, 1080, 1095,
        1085, 1086, 1089, 1090, 1080, 32, 1072, 1085, 1090, 1080, 1089, 1086, 1094, 1080, 1072,
        1083, 1100, 1085, 1086, 1077]),
    (cps ''F60.3'',
     [1101, 1084, 1086, 1094, 1080, 1086, 1085, 1072, 1083, 1100, 1085, 1086, 32, 1085, 1077,
        1091, 1089, 1090, 1086, 1081, 1095, 1080, 1074, 1086, 1077, 32, 1088, 1072, 1089, 1089,
        1090, 1088, 1086, 1081, 1089, 1090, 1074, 1086, 32, 1083, 1080, 1095, 1085, 1086, 1089,
        1090, 1080, 32, 1080, 1084, 1087, 1091, 1083, 1100, 1089, 1080, 1074, 1085, 1086, 1089,
        1090, 1100]),
    (cps ''F44.0'',
     [1076, 1080, 1089, 1089, 1086, 1094, 1080, 1072, 1090, 1080, 1074, 1085, 1072, 1103, 32,
        1072, 1084, 1085, 1077, 1079, 1080, 1103, 32, 1087, 1086, 1090, 1077, 1088, 1103, 32, 1087,
        1072, 1084, 1103, 1090, 1080, 32, 1087, 1089, 1080, 1093, 1086, 1075, 1077, 1085, 1085,
        1072, 1103]),
    (cps ''F44.1'',
     [1076, 1080, 1089, 1089, 1086, 1094, 1080, 1072, 1090, 1080, 1074, 1085, 1072, 1103, 32,
        1092, 1091, 1075, 1072, 32, 1073, 1088, 1086, 1076, 1103, 1078, 1085, 1080, 1095, 1077,
        1089, 1090, 1074, 1086, 32, 1087, 1086, 1090, 1077, 1088, 1103, 32, 1083, 1080, 1095, 1085,
        1086, 1089, 1090, 1080, 32, 1074, 1086, 1082, 1079, 1072, 1083]),
    (cps ''F44.8'',
     [1076, 1088, 1091, 1075, 1080, 1077, 32, 1076, 1080, 1089, 1089, 1086, 1094, 1080, 1072,
        1090, 1080, 1074, 1085, 1099, 1077, 32, 1088, 1072, 1089, 1089, 1090, 1088, 1086, 1081,
        1089, 1090, 1074, 1072, 32, 1082, 1086, 1085, 1074, 1077, 1088, 1089, 1080, 1086, 1085,
        1085, 1099, 1077]),
    (cps ''F32.0'',
     [1083, 1105, 1075, 1082, 1080, 1081, 32, 1076, 1077, 1087, 1088, 1077, 1089, 1089, 1080,
        1074, 1085, 1099, 1081, 32, 1101, 1087, 1080, 1079, 1086, 1076, 32, 1087, 1086, 1076, 1072,
        1074, 1083, 1077, 1085, 1085, 1086, 1089, 1090, 1100]),
    (cps ''F32.1'',
     [1091, 1084, 1077, 1088, 1077, 1085, 1085, 1099, 1081, 32, 1076, 1077, 1087, 1088, 1077,
        1089, 1089, 1080, 1074, 1085, 1099, 1081, 32, 1101, 1087, 1080, 1079, 1086, 1076, 32, 1076,
        1077, 1087, 1088, 1077, 1089, 1089, 1080, 1103, 32, 1089, 1088, 1077, 1076, 1085, 1103,
        1103]),
    (cps ''F32.2'',
     [1090, 1103, 1078, 1105, 1083, 1099, 1081, 32, 1076, 1077, 1087, 1088, 1077, 1089, 1089,
        1080, 1074, 1085, 1099, 1081, 32, 1101, 1087, 1080, 1079, 1086, 1076, 32, 1089, 1091, 1080,
        1094, 1080, 1076, 1072, 1083, 1100, 1085, 1099, 1077, 32, 1084, 1099, 1089, 1083, 1080]),
    (cps ''G40.0'',
     [1083, 1086, 1082, 1072, 1083, 1080, 1079, 1086, 1074, 1072, 1085, 1085, 1072, 1103, 32,
        1080, 1076, 1080, 1086, 1087, 1072, 1090, 1080, 1095, 1077, 1089, 1082, 1072, 1103, 32,
        1101, 1087, 1080, 1083, 1077, 1087, 1089, 1080, 1103, 32, 1092, 1086, 1082, 1072, 1083,
        1100, 1085, 1099, 1077, 32, 1089, 1091, 1076, 1086, 1088, 1086, 1075, 1080]),
    (cps ''G40.3'',
     [1075, 1077, 1085, 1077, 1088, 1072, 1083, 1080, 1079, 1086, 1074, 1072, 1085, 1085, 1072,
        1103, 32, 1080, 1076, 1080, 1086, 1087, 1072, 1090, 1080, 1095, 1077, 1089, 1082, 1072,
        1103, 32, 1101, 1087, 1080, 1083, 1077, 1087, 1089, 1080, 1103, 32, 1090, 1086, 1085, 1080,
        1082, 1086, 45, 1082, 1083, 1086, 1085, 1080, 1095, 1077, 1089, 1082, 1080, 1077]),
    (cps ''G40.9'',
     [1101, 1087, 1080, 1083, 1077, 1087, 1089, 1080, 1103, 32, 1085, 1077, 1091, 1090, 1086,
        1095, 1085, 1105, 1085, 1085, 1072, 1103, 32, 1089, 1091, 1076, 1086, 1088, 1086, 1075,
        1080, 32, 1087, 1088, 1080, 1089, 1090, 1091, 1087]),
    (cps ''Y45.1'',
     [1053, 1055, 1042, 1057, 32, 1085, 1077, 1089, 1090, 1077, 1088, 1086, 1080, 1076, 1085,
        1099, 1077, 32, 1087, 1088, 1086, 1090, 1080, 1074, 1086, 1074, 1086, 1089, 1087, 1072,
        1083, 1080, 1090, 1077, 1083, 1100, 1085, 1099, 1077, 32, 1072, 1094, 1077, 1090, 1080,
        1083, 1089, 1072, 1083, 1080, 1094, 1080, 1083, 1086, 1074, 1072, 1103, 32, 1072, 1089,
        1087, 1080, 1088, 1080, 1085, 32, 1075, 1072, 1089, 1090, 1088, 1086, 1087, 1072, 1090,
        1080, 1103]),
    (cps ''Y45.2'',
     [1089, 1072, 1083, 1080, 1094, 1080, 1083, 1072, 1090, 1099, 32, 1083, 1077, 1082, 1072,
        1088, 1089, 1090, 1074, 1077, 1085, 1085, 1072, 1103, 32, 1103, 1079, 1074, 1072, 32, 1078,
        1077, 1083, 1091, 1076, 1082, 1072]),
    (cps ''Y45.3'',
     [1076, 1088, 1091, 1075, 1080, 1077, 32, 1053, 1055, 1042, 1057, 32, 1085, 1077, 1089, 1090,
        1077, 1088, 1086, 1080, 1076, 1085, 1099, 1077, 32, 1087, 1086, 1088, 1072, 1078, 1077,
        1085, 1080, 1077, 32, 1078, 1077, 1083, 1091, 1076, 1082, 1072, 32, 1080, 1073, 1091, 1087,
        1088, 1086, 1092, 1077, 1085, 32, 1076, 1080, 1082, 1083, 1086, 1092, 1077, 1085, 1072,
        1082]),
    (cps ''Q61.0'',
     [1086, 1076, 1080, 1085, 1086, 1095, 1085, 1072, 1103, 32, 1082, 1080, 1089, 1090, 1072, 32,
        1087, 1086, 1095, 1082, 1080, 32, 1074, 1088, 1086, 1078, 1076, 1105, 1085, 1085, 1072,
        1103]),
    (cps ''Q61.3'',
     [1087, 1086, 1083, 1080, 1082, 1080, 1089, 1090, 1086, 1079, 32, 1087, 1086, 1095, 1077,
        1082, 32, 1072, 1091, 1090, 1086, 1089, 1086, 1084, 1085, 1086, 45, 1088, 1077, 1094, 1077,
        1089, 1089, 1080, 1074, 1085, 1099, 1081, 32, 1076, 1077, 1090, 1080]),
    (cps ''Q61.4'',
     [1082, 1080, 1089, 1090, 1086, 1079, 1085, 1072, 1103, 32, 1076, 1080, 1089, 1087, 1083,
        1072, 1079, 1080, 1103, 32, 1087, 1086, 1095, 1082, 1080]),
    (cps ''Q62.0'',
     [1074, 1088, 1086, 1078, 1076, 1105, 1085, 1085, 1099, 1081, 32, 1075, 1080, 1076, 1088,
        1086, 1085, 1077, 1092, 1088, 1086, 1079, 32, 1088, 1072, 1089, 1096, 1080, 1088, 1077,
        1085, 1080, 1077, 32, 1083, 1086, 1093, 1072, 1085, 1082, 1080]),
    (cps ''Q62.2'',
     [1074, 1088, 1086, 1078, 1076, 1105, 1085, 1085, 1086, 1077, 32, 1089, 1091, 1078, 1077,
        1085, 1080, 1077, 32, 1084, 1086, 1095, 1077, 1090, 1086, 1095, 1085, 1080, 1082, 1072, 32,
        1089, 1090, 1077, 1085, 1086, 1079]),
    (cps ''N13.5'',
     [1087, 1077, 1088, 1077, 1075, 1080, 1073, 32, 1089, 1090, 1088, 1080, 1082, 1090, 1091,
        1088, 1072, 32, 1084, 1086, 1095, 1077, 1090, 1086, 1095, 1085, 1080, 1082, 1072, 32, 1073,
        1077, 1079, 32, 1075, 1080, 1076, 1088, 1086, 1085, 1077, 1092, 1088, 1086, 1079, 1072, 32,
        1086, 1073, 1089, 1090, 1088, 1091, 1082, 1094, 1080, 1103]),
    (cps ''F18.0'',
     [1086, 1089, 1090, 1088, 1072, 1103, 32, 1080, 1085, 1090, 1086, 1082, 1089, 1080, 1082,
        1072, 1094, 1080, 1103, 32, 1080, 1085, 1075, 1072, 1083, 1103, 1085, 1090, 1072, 1084,
        1080, 32, 1082, 1083, 1077, 1081, 32, 1088, 1072, 1089, 1090, 1074, 1086, 1088, 1080, 1090,
        1077, 1083, 1100, 32, 1085, 1102, 1093, 1072, 1077, 1090]),
    (cps ''F18.1'',
     [1091, 1087, 1086, 1090, 1088, 1077, 1073, 1083, 1077, 1085, 1080, 1077, 32, 1080, 1085,
        1075, 1072, 1083, 1103, 1085, 1090, 1086, 1074, 32, 1089, 32, 1074, 1088, 1077, 1076, 1085,
        1099, 1084, 1080, 32, 1087, 1086, 1089, 1083, 1077, 1076, 1089, 1090, 1074, 1080, 1103,
        1084, 1080, 32, 1090, 1086, 1082, 1089, 1080, 1082, 1086, 1084, 1072, 1085, 1080, 1103]),
    (cps ''F18.2'',
     [1089, 1080, 1085, 1076, 1088, 1086, 1084, 32, 1079, 1072, 1074, 1080, 1089, 1080, 1084,
        1086, 1089, 1090, 1080, 32, 1086, 1090, 32, 1080, 1085, 1075, 1072, 1083, 1103, 1085, 1090,
        1086, 1074, 32, 1093, 1088, 1086, 1085, 1080, 1095, 1077, 1089, 1082, 1072, 1103, 32, 1090,
        1086, 1082, 1089, 1080, 1082, 1086, 1084, 1072, 1085, 1080, 1103]),
    (cps ''F18.8'',
     [1076, 1088, 1091, 1075, 1080, 1077, 32, 1087, 1089, 1080, 1093, 1080, 1095, 1077, 1089,
        1082, 1080, 1077, 32, 1088, 1072, 1089, 1089, 1090, 1088, 1086, 1081, 1089, 1090, 1074,
        1072, 32, 1080, 1085, 1075, 1072, 1083, 1103, 1085, 1090, 1099]),
    (cps ''F16.0'',
     [1086, 1089, 1090, 1088, 1072, 1103, 32, 1080, 1085, 1090, 1086, 1082, 1089, 1080, 1082,
        1072, 1094, 1080, 1103, 32, 1075, 1072, 1083, 1083, 1102, 1094, 1080, 1085, 1086, 1075,
        1077, 1085, 1072, 1084, 1080, 32, 1051, 1057, 1044, 32, 1087, 1089, 1080, 1093, 1086, 1076,
        1077, 1083, 1080, 1082, 1080]),
    (cps ''F16.1'',
     [1091, 1087, 1086, 1090, 1088, 1077, 1073, 1083, 1077, 1085, 1080, 1077, 32, 1075, 1072,
        1083, 1083, 1102, 1094, 1080, 1085, 1086, 1075, 1077, 1085, 1086, 1074, 32, 1089, 32, 1074,
        1088, 1077, 1076, 1085, 1099, 1084, 1080, 32, 1087, 1086, 1089, 1083, 1077, 1076, 1089,
        1090, 1074, 1080, 1103, 1084, 1080]),
    (cps ''F16.2'',
     [1089, 1080, 1085, 1076, 1088, 1086, 1084, 32, 1079, 1072, 1074, 1080, 1089, 1080, 1084,
        1086, 1089, 1090, 1080, 32, 1086, 1090, 32, 1075, 1072, 1083, 1083, 1102, 1094, 1080, 1085,
        1086, 1075, 1077, 1085, 1086, 1074]),
    (cps ''M81.0'',
     [1087, 1086, 1089, 1090, 1084, 1077, 1085, 1086, 1087, 1072, 1091, 1079, 1072, 1083, 1100,
        1085, 1099, 1081, 32, 1086, 1089, 1090, 1077, 1086, 1087, 1086, 1088, 1086, 1079, 32, 1087,
        1077, 1088, 1077, 1083, 1086, 1084, 1099, 32, 1078, 1077, 1085, 1097, 1080, 1085, 1099, 32,
        1082, 1083, 1080, 1084, 1072, 1082, 1089]),
    (cps ''M81.1'',
     [1086, 1089, 1090, 1077, 1086, 1087, 1086, 1088, 1086, 1079, 32, 1087, 1086, 1089, 1083,
        1077, 32, 1091, 1076, 1072, 1083, 1077, 1085, 1080, 1103, 32, 1103, 1080, 1095, 1085, 1080,
        1082, 1086, 1074]),
    (cps ''I73.0'',
     [1089, 1080, 1085, 1076, 1088, 1086, 1084, 32, 1056, 1077, 1081, 1085, 1086, 32, 1074, 1072,
        1079, 1086, 1089, 1087, 1072, 1079, 1084, 32, 1087, 1072, 1083, 1100, 1094, 1099, 32, 1073,
        1077, 1083, 1077, 1102, 1090, 32, 1089, 1080, 1085, 1077, 1102, 1090]),
    (cps ''F06.6'',
     [1086, 1088, 1075, 1072, 1085, 1080, 1095, 1077, 1089, 1082, 1086, 1077, 32, 1101, 1084,
        1086, 1094, 1080, 1086, 1085, 1072, 1083, 1100, 1085, 1086, 32, 1083, 1072, 1073, 1080,
        1083, 1100, 1085, 1086, 1077, 32, 1088, 1072, 1089, 1089, 1090, 1088, 1086, 1081, 1089,
        1090, 1074, 1086, 32, 1087, 1086, 1089, 1090, 1082, 1086, 1074, 1080, 1076, 32, 1093, 1088,
        1086, 1085, 1080, 1095, 1077, 1089, 1082, 1072, 1103, 32, 1091, 1089, 1090, 1072, 1083,
        1086, 1089, 1090, 1100]),
    (cps ''F41.2'',
     [1089, 1084, 1077, 1096, 1072, 1085, 1085, 1086, 1077, 32, 1090, 1088, 1077, 1074, 1086,
        1078, 1085, 1086, 1077, 32, 1080, 32, 1076, 1077, 1087, 1088, 1077, 1089, 1089, 1080, 1074,
        1085, 1086, 1077, 32, 1088, 1072, 1089, 1089, 1090, 1088, 1086, 1081, 1089, 1090, 1074,
        1086]),
    (cps ''Q78.1'',
     [1087, 1086, 1083, 1080, 1086, 1089, 1090, 1086, 1090, 1080, 1095, 1077, 1089, 1082, 1072,
        1103, 32, 1092, 1080, 1073, 1088, 1086, 1079, 1085, 1072, 1103, 32, 1076, 1080, 1089, 1087,
        1083, 1072, 1079, 1080, 1103, 32, 1082, 1086, 1089, 1090, 1077, 1081, 32, 1074, 1088, 1086,
        1078, 1076, 1105, 1085, 1085, 1072, 1103, 32, 1087, 1072, 1090, 1086, 1083, 1086, 1075,
        1080, 1095, 1077, 1089, 1082, 1080, 1077, 32, 1087, 1077, 1088, 1077, 1083, 1086, 1084,
        1099])]"

text \<open>
  \<^verbatim>\<open>
  def score_code_vs_query(code, query):
      desc = ICD_DESCRIPTIONS.get(code, "")
      if not desc:
          return 0.0
      q_tokens = set(re.findall(r'[...a-z0-9]+', query.lower()))
      d_tokens = set(re.findall(r'[...a-z0-9]+', desc.lower()))
      if not d_tokens:
          return 0.0
      return len(q_tokens & d_tokens) / (len(d_tokens) + 1)
  \<close>
  The quotient of two Python integers is a float; it is modelled as a real number.
\<close>

definition overlap_score :: "ustring \<Rightarrow> ustring \<Rightarrow> real" where
  "overlap_score desc query =
     (let q_tokens = set (findall is_word_cp (lower query));
          d_tokens = set (findall is_word_cp (lower desc))
      in if d_tokens = {} then 0
         else real (card (q_tokens \<inter> d_tokens)) / real (card d_tokens + 1))"

definition score_code_vs_query :: "ustring \<Rightarrow> ustring \<Rightarrow> real" where
  "score_code_vs_query code query =
     (let desc = (case map_of ICD_DESCRIPTIONS code of None \<Rightarrow> [] | Some d \<Rightarrow> d)
      in if desc = [] then 0 else overlap_score desc query)"

section \<open>generator.py: local keyword predictor\<close>

text \<open>\<open>KEYWORD_ICD_MAP\<close>: the rules (keywords, codes) of the source, in its order.\<close>

definition KEYWORD_ICD_MAP :: "(ustring list \<times> ustring list) list" where
  "KEYWORD_ICD_MAP = [
    ([[1086, 1095, 1085, 1091, 1083, 1072, 1089, 1100],
      [1085, 1077, 32, 1087, 1086, 1084, 1085, 1080, 1083, 1072, 32, 1082, 1090, 1086],
      [1085, 1077, 32, 1087, 1086, 1084, 1085, 1102, 32, 1082, 1090, 1086],
      [1087, 1086, 1090, 1077, 1088, 1103, 32, 1087, 1072, 1084, 1103, 1090, 1080],
      [1074, 1086, 1082, 1079, 1072, 1083, 32, 1085, 1077, 32, 1087, 1086, 1084, 1085, 1102],
      [1074, 1089, 1087, 1086, 1084, 1085, 1080, 1083, 1072, 32, 1095, 1077, 1088, 1077, 1079],
      [1085, 1077, 32, 1079, 1085, 1072, 1083, 1072, 32, 1082, 1090, 1086, 32, 1103],
      [1085, 1077, 32, 1087, 1086, 1084, 1085, 1080, 1083, 1072, 32, 1082, 1072, 1082]],
     [cps ''F44.1'', cps ''F44.0'', cps ''F44.8'']),
    ([[1075, 1072, 1083, 1083, 1102, 1094, 1080, 1085, 1072, 1094],
      [1075, 1086, 1083, 1086, 1089, 1072, 32, 1074, 32, 1075, 1086, 1083, 1086, 1074, 1077],
      [1075, 1086, 1083, 1086, 1089, 1072, 32, 1089, 1083, 1099, 1096, 1091],
      [1074, 1080, 1076, 1077, 1085, 1080, 1103],
      [1087, 1088, 1077, 1089, 1083, 1077, 1076, 1091, 1102, 1090],
      [1079, 1072, 1075, 1086, 1074, 1086, 1088]],
     [cps ''F20.0'', cps ''F20.9'', cps ''F23.0'']),
    ([[1090, 1088, 1077, 1074, 1086, 1075],
      [1087, 1072, 1085, 1080, 1082],
      [1089, 1090, 1088, 1072, 1093, 32, 1085, 1072, 1074, 1103, 1079, 1095, 1080, 1074],
      [1088, 1091, 1082, 1080, 32, 1090, 1088, 1103, 1089, 1091, 1090, 1089, 1103, 32, 1089, 1090,
        1088, 1072, 1093]],
     [cps ''F41.0'', cps ''F41.1'', cps ''F40.0'']),
    ([[1076, 1077, 1087, 1088, 1077, 1089, 1089],
      [1087, 1086, 1076, 1072, 1074, 1083, 1077, 1085],
      [1085, 1080, 1095, 1077, 1075, 1086, 32, 1085, 1077, 32, 1093, 1086, 1095, 1091],
      [1085, 1077, 1090, 32, 1089, 1084, 1099, 1089, 1083, 1072],
      [1089, 1083, 1105, 1079, 1099, 32, 1073, 1077, 1079, 32, 1087, 1088, 1080, 1095, 1080, 1085,
        1099]],
     [cps ''F32.0'', cps ''F32.1'', cps ''F32.2'']),
    ([[1089, 1091, 1076, 1086, 1088, 1086, 1075],
      [1090, 1088, 1103, 1089, 1105, 1090, 1089, 1103],
      [1082, 1086, 1085, 1074, 1091, 1083, 1100, 1089],
      [1091, 1087, 1072, 1083, 32, 1087, 1086, 1090, 1077, 1088, 1103, 1083, 32, 1089, 1086, 1079,
        1085, 1072, 1085, 1080, 1077, 32, 1090, 1088, 1103, 1089, 1089, 1103],
      [1087, 1088, 1080, 1089, 1090, 1091, 1087, 32, 1087, 1077, 1085, 1072, 32, 1088, 1086, 1090]],
     [cps ''G40.0'', cps ''G40.3'', cps ''G40.9'']),
    ([[1084, 1080, 1075, 1088, 1077, 1085],
      [1073, 1086, 1083, 1100, 32, 1075, 1086, 1083, 1086, 1074, 1072, 32, 1086, 1076, 1085, 1072,
        32, 1089, 1090, 1086, 1088, 1086, 1085, 1072],
      [1090, 1086, 1096, 1085, 1086, 1090, 1072, 32, 1089, 1074, 1077, 1090],
      [1092, 1086, 1090, 1086, 1092, 1086, 1073, 1080, 1103, 32, 1075, 1086, 1083, 1086, 1074,
        1072]],
     [cps ''G43.0'', cps ''G43.1'']),
    ([[1091, 1076, 1072, 1088, 32, 1075, 1086, 1083, 1086, 1074, 1086, 1081],
      [1090, 1088, 1072, 1074, 1084, 1072, 32, 1075, 1086, 1083, 1086, 1074, 1099],
      [1087, 1086, 1089, 1083, 1077, 32, 1072, 1074, 1072, 1088, 1080, 1080, 32, 1075, 1086, 1083,
        1086, 1074, 1072],
      [1087, 1086, 1090, 1077, 1088, 1103, 1083, 32, 1089, 1086, 1079, 1085, 1072, 1085, 1080,
        1077, 32, 1091, 1087, 1072, 1083]],
     [cps ''S06.0'', cps ''S06.3'', cps ''S09.9'']),
    ([[1089, 1083, 1072, 1073, 1086, 1091, 1084, 1080, 1077],
      [1076, 1077, 1084, 1077, 1085, 1094, 1080, 1103],
      [1085, 1077, 32, 1091, 1079, 1085, 1072, 1105, 1090, 32, 1073, 1083, 1080, 1079, 1082, 1080,
        1093],
      [1079, 1072, 1073, 1099, 1074, 1072, 1077, 1090, 32, 1074, 1089, 1105]],
     [cps ''F00.0'', cps ''F00.9'']),
    ([[1088, 1072, 1089, 1089, 1077, 1103, 1085, 1085, 1099, 1081, 32, 1089, 1082, 1083, 1077,
        1088, 1086, 1079],
      [1076, 1074, 1086, 1080, 1090, 1089, 1103, 32, 1074, 32, 1075, 1083, 1072, 1079, 1072, 1093,
        32, 1089, 1083, 1072, 1073, 1086, 1089, 1090, 1100],
      [1085, 1072, 1088, 1091, 1096, 1077, 1085, 1080, 1077, 32, 1088, 1072, 1074, 1085, 1086,
        1074, 1077, 1089, 1080, 1103, 32, 1087, 1088, 1086, 1075, 1088, 1077, 1089, 1089, 1080,
        1088, 1091, 1077, 1090]],
     [cps ''G35'']),
    ([[1080, 1085, 1089, 1091, 1083, 1100, 1090],
      [1072, 1092, 1072, 1079, 1080, 1103],
      [1087, 1072, 1088, 1072, 1083, 1080, 1095, 32, 1083, 1080, 1094, 1072],
      [1086, 1085, 1077, 1084, 1077, 1085, 1080, 1077, 32, 1087, 1086, 1083, 1086, 1074, 1080,
        1085, 1072, 32, 1090, 1077, 1083, 1072]],
     [cps ''I63.9'', cps ''I64'']),
    ([[1079, 1072, 1084, 1080, 1088, 1072, 1077, 1090, 32, 1089, 1077, 1088, 1076, 1094, 1077],
      [1087, 1088, 1086, 1087, 1091, 1089, 1082, 1072, 1077, 1090, 32, 1091, 1076, 1072, 1088],
      [1087, 1072, 1091, 1079, 1072, 32, 1087, 1091, 1083, 1100, 1089],
      [1073, 1088, 1072, 1076, 1080, 1082, 1072, 1088, 1076],
      [1088, 1077, 1076, 1082, 1080, 1081, 32, 1087, 1091, 1083, 1100, 1089],
      [1086, 1089, 1090, 1072, 1085, 1086, 1074, 1082, 1072, 32, 1089, 1077, 1088, 1076, 1094,
        1072, 32, 1086, 1097, 1091, 1097, 1077, 1085, 1080, 1077],
      [1072, 1074, 32, 1073, 1083, 1086, 1082, 1072, 1076],
      [97, 118, 32, 1073, 1083, 1086, 1082, 1072, 1076, 1072],
      [1073, 1083, 1086, 1082, 1072, 1076, 1072, 32, 1089, 1077, 1088, 1076, 1094, 1072],
      [1085, 1072, 1088, 1091, 1096, 1077, 1085, 1080, 1077, 32, 1087, 1088, 1086, 1074, 1086,
        1076, 1080, 1084, 1086, 1089, 1090, 1080, 32, 1089, 1077, 1088, 1076, 1094, 1072]],
     [cps ''I44.1'', cps ''I44.2'', cps ''I44.0'', cps ''I49.5'']),
    ([[1091, 1095, 1072, 1097, 1105, 1085, 1085, 1086, 1077, 32, 1089, 1077, 1088, 1076, 1094,
        1077, 1073, 1080, 1077, 1085, 1080, 1077],
      [1089, 1077, 1088, 1076, 1094, 1077, 32, 1082, 1086, 1083, 1086, 1090, 1080, 1090, 1089,
        1103],
      [1090, 1072, 1093, 1080, 1082, 1072, 1088, 1076],
      [1072, 1088, 1080, 1090, 1084]],
     [cps ''I47.1'', cps ''I48.0'', cps ''I49.0'']),
    ([[1073, 1086, 1083, 1100, 32, 1075, 1088, 1091, 1076, 1100, 32, 1085, 1072, 1075, 1088, 1091,
        1079, 1082, 1072],
      [1076, 1072, 1074, 1080, 1090, 32, 1075, 1088, 1091, 1076, 1100],
      [1089, 1090, 1077, 1085, 1086, 1082, 1072, 1088, 1076, 1080, 1103]],
     [cps ''I20.0'', cps ''I20.9'', cps ''I25.1'']),
    ([[1080, 1085, 1092, 1072, 1088, 1082, 1090],
      [1086, 1089, 1090, 1088, 1072, 1103, 32, 1073, 1086, 1083, 1100, 32, 1075, 1088, 1091, 1076,
        1100, 32, 1093, 1086, 1083, 1086, 1076, 1085, 1099, 1081, 32, 1087, 1086, 1090],
      [1073, 1086, 1083, 1100, 32, 1075, 1088, 1091, 1076, 1100, 32, 1088, 1091, 1082, 1072, 32,
        1083, 1077, 1074, 1072, 1103]],
     [cps ''I21.0'', cps ''I21.9'']),
    ([[1075, 1080, 1087, 1077, 1088, 1090, 1086, 1085],
      [1076, 1072, 1074, 1083, 1077, 1085, 1080, 1077, 32, 1074, 1099, 1089, 1086, 1082, 1086,
        1077],
      [1075, 1080, 1087, 1077, 1088, 1090, 1077, 1085, 1079, 1080, 1103]],
     [cps ''I10'', cps ''I11.0'']),
    ([[1087, 1072, 1083, 1100, 1094, 1099, 32, 1073, 1077, 1083, 1077, 1102, 1090],
      [1087, 1072, 1083, 1100, 1094, 1099, 32, 1089, 1080, 1085, 1077, 1102, 1090, 32, 1093, 1086,
        1083, 1086, 1076],
      [1073, 1077, 1083, 1077, 1102, 1090, 32, 1087, 1072, 1083, 1100, 1094, 1099, 32, 1084, 1105,
        1088, 1079, 1085, 1091, 1090],
      [1088, 1077, 1081, 1085, 1086],
      [1074, 1072, 1079, 1086, 1089, 1087, 1072, 1079, 1084, 32, 1087, 1072, 1083, 1100, 1094,
        1077, 1074]],
     [cps ''I73.0'']),
    ([[1086, 1089, 1080, 1087, 1083, 1086, 1089, 1090, 1100],
      [1087, 1086, 1090, 1077, 1088, 1103, 1083, 1072, 32, 1075, 1086, 1083, 1086, 1089],
      [1093, 1088, 1080, 1087, 1086, 1090, 1072],
      [1087, 1077, 1088, 1096, 1077, 1085, 1080, 1077, 32, 1075, 1086, 1088, 1083, 1086],
      [1083, 1072, 1088, 1080, 1085, 1075, 1080, 1090]],
     [cps ''J04.0'', cps ''J04.1'', cps ''J04.2'']),
    ([[1073, 1086, 1083, 1100, 32, 1075, 1086, 1088, 1083, 1086],
      [1082, 1088, 1072, 1089, 1085, 1086, 1077, 32, 1075, 1086, 1088, 1083, 1086, 32, 1090, 1077,
        1084, 1087, 1077, 1088, 1072, 1090, 1091, 1088, 1072],
      [1073, 1077, 1083, 1099, 1081, 32, 1085, 1072, 1083, 1105, 1090, 32, 1084, 1080, 1085, 1076,
        1072, 1083, 1080, 1085, 1099],
      [1072, 1085, 1075, 1080, 1085]],
     [cps ''J03.9'', cps ''J35.0'']),
    ([[1082, 1072, 1096, 1077, 1083, 1100, 32, 1090, 1077, 1084, 1087, 1077, 1088, 1072, 1090,
        1091, 1088, 1072, 32, 1086, 1076, 1099, 1096, 1082, 1072],
      [1073, 1086, 1083, 1100, 32, 1075, 1088, 1091, 1076, 1100, 32, 1076, 1099, 1093, 1072, 1085,
        1080, 1077],
      [1074, 1086, 1089, 1087, 1072, 1083, 1077, 1085, 1080, 1077, 32, 1083, 1105, 1075, 1082,
        1080, 1093],
      [1087, 1085, 1077, 1074, 1084, 1086, 1085, 1080]],
     [cps ''J18.1'', cps ''J15.0'', cps ''J18.9'']),
    ([[1072, 1089, 1090, 1084],
      [1089, 1074, 1080, 1089, 1090, 32, 1076, 1099, 1093, 1072, 1085, 1080, 1077],
      [1091, 1076, 1091, 1096, 1100, 1077, 32, 1087, 1088, 1080, 1089, 1090, 1091, 1087],
      [1073, 1088, 1086, 1085, 1093, 1086, 1089, 1087, 1072, 1079, 1084]],
     [cps ''J45.0'', cps ''J45.9'']),
    ([[1073, 1086, 1083, 1100, 32, 1078, 1080, 1074, 1086, 1090, 32, 1074, 1079, 1076, 1091, 1090,
        1080, 1077],
      [1084, 1077, 1085, 1103, 1077, 1090, 1089, 1103, 32, 1089, 1090, 1091, 1083],
      [1079, 1072, 1087, 1086, 1088, 32, 1087, 1086, 1085, 1086, 1089, 32, 1095, 1077, 1088, 1077,
        1076, 1091, 1102, 1090, 1089, 1103],
      [1089, 1088, 1082]],
     [cps ''K58.0'', cps ''K58.9'']),
    ([[1082, 1088, 1086, 1074, 1100, 32, 1082, 1072, 1083],
      [1087, 1086, 1085, 1086, 1089, 32, 1082, 1088, 1086, 1074, 1100],
      [1089, 1083, 1080, 1079, 1100, 32, 1082, 1088, 1086, 1074, 1100, 32, 1089, 1090, 1091, 1083],
      [1076, 1080, 1079, 1077, 1085, 1090, 1077, 1088, 1080],
      [1096, 1080, 1075, 1077, 1083, 1083]],
     [cps ''A03.0'', cps ''A03.9'']),
    ([[1073, 1086, 1083, 1100, 32, 1087, 1088, 1072, 1074, 1099, 1081, 32, 1073, 1086, 1082, 32,
        1077, 1076, 1072],
      [1075, 1086, 1088, 1077, 1095, 1100, 32, 1088, 1086, 1090],
      [1082, 1072, 1084, 1085, 1080, 32, 1078, 1077, 1083, 1095, 1085, 1099, 1081],
      [1078, 1077, 1083, 1090, 1091, 1093, 1072, 32, 1073, 1086, 1083, 1100, 32, 1073, 1086, 1082]],
     [cps ''K81.0'', cps ''K81.1'', cps ''K80.2'']),
    ([[1094, 1080, 1088, 1088, 1086, 1079],
      [1072, 1089, 1094, 1080, 1090],
      [1078, 1080, 1074, 1086, 1090, 32, 1091, 1074, 1077, 1083, 1080, 1095, 1077, 1085]],
     [cps ''K74.5'', cps ''K74.6'']),
    ([[1080, 1079, 1078, 1086, 1075, 1072],
      [1073, 1086, 1083, 1100, 32, 1078, 1077, 1083, 1091, 1076, 1086, 1082, 32, 1075, 1086, 1083,
        1086, 1076, 1085, 1072, 1103],
      [1103, 1079, 1074, 1072, 32, 1078, 1077, 1083, 1091, 1076, 1086, 1082]],
     [cps ''K25.0'', cps ''K29.7'', cps ''K21.0'']),
    ([[1085, 1087, 1074, 1089],
      [1072, 1089, 1087, 1080, 1088, 1080, 1085, 32, 1078, 1077, 1083, 1091, 1076, 1086, 1082],
      [1080, 1073, 1091, 1087, 1088, 1086, 1092, 1077, 1085, 32, 1078, 1077, 1083, 1091, 1076,
        1086, 1082],
      [1076, 1080, 1082, 1083, 1086, 1092, 1077, 1085, 1072, 1082, 32, 1078, 1077, 1083, 1091,
        1076, 1086, 1082],
      [1086, 1090, 32, 1090, 1072, 1073, 1083, 1077, 1090, 1086, 1082, 32, 1078, 1077, 1083, 1091,
        1076, 1086, 1082]],
     [cps ''Y45.1'', cps ''Y45.2'', cps ''Y45.3'']),
    ([[1082, 1088, 1086, 1074, 1100, 32, 1084, 1086, 1095, 1072],
      [1075, 1077, 1084, 1072, 1090, 1091, 1088, 1080, 1103],
      [1088, 1086, 1079, 1086, 1074, 1072, 1103, 32, 1084, 1086, 1095, 1072],
      [1084, 1086, 1095, 1072, 32, 1082, 1088, 1072, 1089, 1085, 1072, 1103]],
     [cps ''N02.9'', cps ''Q61.4'', cps ''N20.0'']),
    ([[1087, 1080, 1077, 1083, 1086, 1085, 1077, 1092, 1088, 1080, 1090],
      [1078, 1078, 1077, 1085, 1080, 1077, 32, 1084, 1086, 1095, 1077, 1080, 1089, 1087, 1091,
        1089, 1082, 1072, 1085, 1080, 1077],
      [1073, 1086, 1083, 1100, 32, 1087, 1086, 1103, 1089, 1085, 1080, 1094, 1072, 32, 1090, 1077,
        1084, 1087, 1077, 1088, 1072, 1090, 1091, 1088, 1072, 32, 1084, 1086, 1095, 1072]],
     [cps ''N10'', cps ''N11.0'']),
    ([[1084, 1086, 1095, 1077, 1082, 1072, 1084, 1077, 1085, 1085],
      [1082, 1072, 1084, 1085, 1080, 32, 1087, 1086, 1095, 1082, 1080],
      [1087, 1086, 1095, 1077, 1095, 1085, 1072, 1103, 32, 1082, 1086, 1083, 1080, 1082, 1072]],
     [cps ''N20.0'', cps ''N20.1'']),
    ([[1082, 1080, 1089, 1090, 1099, 32, 1087, 1086, 1095, 1082, 1080],
      [1087, 1086, 1083, 1080, 1082, 1080, 1089, 1090, 1086, 1079],
      [1082, 1080, 1089, 1090, 1086, 1079, 1085, 1072, 1103, 32, 1087, 1086, 1095, 1082, 1072]],
     [cps ''Q61.3'', cps ''Q61.4'', cps ''Q61.0'']),
    ([[1084, 1086, 1095, 1077, 1090, 1086, 1095, 1085, 1080, 1082, 32, 1089, 1091, 1078, 1077,
        1085, 1080, 1077],
      [1075, 1080, 1076, 1088, 1086, 1085, 1077, 1092, 1088, 1086, 1079],
      [1088, 1072, 1089, 1096, 1080, 1088, 1077, 1085, 1080, 1077, 32, 1083, 1086, 1093, 1072,
        1085, 1082, 1080],
      [1072, 1085, 1086, 1084, 1072, 1083, 1080, 1103, 32, 1084, 1086, 1095, 1077, 1090, 1086,
        1095, 1085, 1080, 1082, 1072]],
     [cps ''Q62.2'', cps ''Q62.0'', cps ''N13.5'']),
    ([[1073, 1086, 1083, 1077, 1079, 1085, 1077, 1085, 1085, 1099, 1077, 32, 1084, 1077, 1089,
        1103, 1095, 1085, 1099, 1077],
      [1073, 1086, 1083, 1100, 32, 1084, 1077, 1089, 1103, 1095, 1085, 1099, 1077],
      [1076, 1080, 1089, 1084, 1077, 1085, 1086, 1088, 1077, 1103],
      [1072, 1083, 1100, 1075, 1086, 1076, 1080, 1089, 1084, 1077, 1085, 1086, 1088, 1077, 1103]],
     [cps ''N94.4'', cps ''N94.5'', cps ''N94.6'']),
    ([[1087, 1088, 1077, 1076, 1084, 1077, 1085, 1089, 1090, 1088, 1091, 1072, 1083, 1100, 1085,
        1099, 1081],
      [1087, 1084, 1089],
      [1087, 1077, 1088, 1077, 1076, 32, 1084, 1077, 1089, 1103, 1095, 1085, 1099, 1084, 1080]],
     [cps ''N94.3'']),
    ([[1101, 1085, 1076, 1086, 1084, 1077, 1090, 1088, 1080, 1086, 1079],
      [1073, 1086, 1083, 1100, 32, 1085, 1080, 1079, 32, 1078, 1080, 1074, 1086, 1090, 1072, 32,
        1078, 1077, 1085, 1097, 1080, 1085, 1072, 32, 1074, 1085, 1077, 32, 1084, 1077, 1089, 1103,
        1095, 1085, 1099, 1093]],
     [cps ''N80.0'', cps ''N80.9'']),
    ([[1088, 1072, 1082, 32, 1096, 1077, 1081, 1082, 1080, 32, 1084, 1072, 1090, 1082, 1080],
      [1086, 1085, 1082, 1086, 1083, 1086, 1075, 1080, 1103, 32, 1096, 1077, 1081, 1082, 1080],
      [1084, 1072, 1079, 1086, 1082, 32, 1086, 1085, 1082, 1086, 1083, 1086, 1075, 1080, 1103],
      [1082, 1088, 1086, 1074, 1086, 1090, 1077, 1095, 1077, 1085, 1080, 1077, 32, 1096, 1077,
        1081, 1082, 1072]],
     [cps ''C53.0'', cps ''C53.8'', cps ''C53.9'']),
    ([[1084, 1080, 1086, 1084, 1072],
      [1091, 1079, 1083, 1099, 32, 1084, 1072, 1090, 1082, 1072],
      [1086, 1073, 1080, 1083, 1100, 1085, 1099, 1077, 32, 1084, 1077, 1089, 1103, 1095, 1085,
        1099, 1077],
      [1083, 1077, 1081, 1086, 1084, 1080, 1086, 1084, 1072]],
     [cps ''D25.0'', cps ''D25.1'', cps ''D25.9'']),
    ([[1073, 1077, 1088, 1077, 1084, 1077, 1085, 1085, 1086, 1089, 1090, 1100],
      [1090, 1086, 1096, 1085, 1086, 1090, 1072, 32, 1088, 1074, 1086, 1090, 1072, 32, 1073, 1077,
        1088, 1077, 1084, 1077, 1085, 1085, 1072, 1103],
      [1079, 1072, 1076, 1077, 1088, 1078, 1082, 1072]],
     [cps ''O21.0'', cps ''O26.6'']),
    ([[1074, 1099, 1082, 1080, 1076, 1099, 1096],
      [1089, 1072, 1084, 1086, 1087, 1088, 1086, 1080, 1079, 1074, 1086, 1083, 1100, 1085, 1099,
        1081, 32, 1072, 1073, 1086, 1088, 1090]],
     [cps ''O03.0'', cps ''O03.9'']),
    ([[1087, 1077, 1088, 1077, 1083, 1086, 1084],
      [1088, 1077, 1085, 1090, 1075, 1077, 1085, 32, 1090, 1088, 1077, 1097, 1080, 1085, 1072, 32,
        1082, 1086, 1089, 1090, 1100]],
     [cps ''S32.2'', cps ''S32.0'', cps ''S42.0'']),
    ([[1073, 1086, 1083, 1100, 32, 1089, 1087, 1080, 1085, 1072],
      [1087, 1086, 1103, 1089, 1085, 1080, 1095, 1085, 1072, 1103, 32, 1073, 1086, 1083, 1100],
      [1086, 1089, 1090, 1077, 1086, 1093, 1086, 1085, 1076, 1088, 1086, 1079]],
     [cps ''M54.5'', cps ''M51.1'']),
    ([[1072, 1088, 1090, 1088, 1080, 1090],
      [1074, 1086, 1089, 1087, 1072, 1083, 1077, 1085, 1080, 1077, 32, 1089, 1091, 1089, 1090,
        1072, 1074, 1086, 1074],
      [1088, 1077, 1074, 1084, 1072, 1090, 1086, 1080, 1076, 1085, 1099, 1081]],
     [cps ''M06.0'', cps ''M05.0'']),
    ([[1086, 1089, 1090, 1077, 1086, 1087, 1086, 1088, 1086, 1079],
      [1093, 1088, 1091, 1087, 1082, 1080, 1077, 32, 1082, 1086, 1089, 1090, 1080, 32, 1087, 1077,
        1088, 1077, 1083, 1086, 1084, 1099, 32, 1073, 1077, 1079, 32, 1090, 1088, 1072, 1074, 1084,
        1099]],
     [cps ''M81.0'', cps ''M81.1'']),
    ([[1088, 1077, 1073, 1105, 1085, 1086, 1082, 32, 1082, 1088, 1086, 1074, 1100, 32, 1084, 1086,
        1095, 1072],
      [1086, 1090, 1105, 1082, 1080, 32, 1083, 1080, 1094, 1086, 32, 1088, 1077, 1073, 1105, 1085,
        1086, 1082],
      [1084, 1086, 1095, 1072, 32, 1090, 1105, 1084, 1085, 1072, 1103, 32, 1088, 1077, 1073, 1105,
        1085, 1086, 1082]],
     [cps ''Q61.4'', cps ''N04.9'', cps ''N00.9'']),
    ([[1075, 1080, 1087, 1077, 1088, 1072, 1082, 1090, 1080, 1074, 1085, 1086, 1089, 1090, 1100],
      [1089, 1076, 1074, 1075],
      [1085, 1077, 1074, 1085, 1080, 1084, 1072, 1090, 1077, 1083, 1100, 1085, 1086, 1089, 1090,
        1100, 32, 1088, 1077, 1073, 1105, 1085, 1082, 1072]],
     [cps ''F90.0'', cps ''F90.9'']),
    ([[1087, 1072, 1090, 1086, 1083, 1086, 1075, 1080, 1095, 1077, 1089, 1082, 1080, 1077, 32,
        1087, 1077, 1088, 1077, 1083, 1086, 1084, 1099, 32, 1088, 1077, 1073, 1105, 1085, 1086,
        1082],
      [1092, 1080, 1073, 1088, 1086, 1079, 1085, 1072, 1103, 32, 1076, 1080, 1089, 1087, 1083,
        1072, 1079, 1080, 1103]],
     [cps ''Q78.1'']),
    ([[1090, 1091, 1073, 1077, 1088, 1082, 1091, 1083, 1105, 1079],
      [1082, 1072, 1096, 1077, 1083, 1100, 32, 1082, 1088, 1086, 1074, 1100, 32, 1076, 1083, 1080,
        1090, 1077, 1083, 1100, 1085, 1099, 1081],
      [1085, 1086, 1095, 1085, 1072, 1103, 32, 1087, 1086, 1090, 1083, 1080, 1074, 1086, 1089,
        1090, 1100, 32, 1087, 1086, 1093, 1091, 1076, 1077, 1085, 1080, 1077, 32, 1082, 1072, 1096,
        1077, 1083, 1100]],
     [cps ''A15.0'', cps ''A15.3'']),
    ([[1075, 1077, 1088, 1087, 1077, 1089],
      [1087, 1091, 1079, 1099, 1088, 1080, 32, 1075, 1091, 1073, 1072, 1093],
      [1075, 1077, 1088, 1087, 1077, 1090, 1080, 1095, 1077, 1089, 1082, 1080, 1081, 32, 1089,
        1090, 1086, 1084, 1072, 1090, 1080, 1090]],
     [cps ''B00.2'', cps ''A60.0'']),
    ([[1083, 1080, 1093, 1086, 1088, 1072, 1076, 1082, 1072, 32, 1076, 1077, 1085, 1075, 1077],
      [1090, 1088, 1086, 1087, 1080, 1095, 1077, 1089, 1082, 1072, 1103, 32, 1083, 1080, 1093,
        1086, 1088, 1072, 1076, 1082, 1072],
      [1089, 1099, 1087, 1100, 32, 1087, 1086, 1089, 1083, 1077, 32, 1090, 1088, 1086, 1087, 1080,
        1095, 1077, 1089, 1082, 1080, 1093, 32, 1089, 1090, 1088, 1072, 1085]],
     [cps ''A90'', cps ''A91'']),
    ([[1086, 1087, 1091, 1093, 1086, 1083, 1100, 32, 1075, 1086, 1083, 1086, 1074, 1085, 1086,
        1075, 1086, 32, 1084, 1086, 1079, 1075, 1072],
      [1075, 1083, 1080, 1086, 1084],
      [1085, 1072, 1088, 1072, 1089, 1090, 1072, 1102, 1097, 1072, 1103, 32, 1075, 1086, 1083,
        1086, 1074, 1085, 1072, 1103, 32, 1073, 1086, 1083, 1100, 32, 1088, 1074, 1086, 1090, 1072]],
     [cps ''C71.0'', cps ''C71.9'', cps ''D33.0'', cps ''D33.1'']),
    ([[1083, 1080, 1084, 1092, 1086, 1084],
      [1091, 1074, 1077, 1083, 1080, 1095, 1077, 1085, 1099, 32, 1083, 1080, 1084, 1092, 1086,
        1091, 1079, 1083, 1099, 32, 1085, 1086, 1095, 1085, 1072, 1103, 32, 1087, 1086, 1090, 1083,
        1080, 1074, 1086, 1089, 1090, 1100]],
     [cps ''C81.0'', cps ''C82.0'']),
    ([[1084, 1080, 1077, 1083, 1086, 1076, 1080, 1089, 1087, 1083, 1072, 1089, 1090],
      [1088, 1077, 1092, 1088, 1072, 1082, 1090, 1077, 1088, 1085, 1072, 1103, 32, 1072, 1085,
        1077, 1084, 1080, 1103],
      [1073, 1083, 1072, 1089, 1090, 1099, 32, 1082, 1088, 1086, 1074, 1080]],
     [cps ''D46.2'', cps ''D46.4'']),
    ([[1076, 1080, 1072, 1073, 1077, 1090],
      [1074, 1099, 1089, 1086, 1082, 1080, 1081, 32, 1089, 1072, 1093, 1072, 1088],
      [1078, 1072, 1078, 1076, 1072, 32, 1084, 1085, 1086, 1075, 1086, 32, 1087, 1100, 1102, 32,
        1084, 1085, 1086, 1075, 1086, 32, 1084, 1086, 1095, 1091, 1089, 1100]],
     [cps ''E11.9'', cps ''E10.9'']),
    ([[1097, 1080, 1090, 1086, 1074, 1080, 1076, 1085, 1072, 1103],
      [1075, 1080, 1087, 1086, 1090, 1080, 1088, 1077, 1086, 1079],
      [1075, 1080, 1087, 1077, 1088, 1090, 1080, 1088, 1077, 1086, 1079],
      [1079, 1086, 1073]],
     [cps ''E03.9'', cps ''E05.0'']),
    ([[1087, 1089, 1086, 1088, 1080, 1072, 1079],
      [1093, 1088, 1086, 1085, 1080, 1095, 1077, 1089, 1082, 1072, 1103, 32, 1089, 1099, 1087,
        1100, 32, 1095, 1077, 1096, 1091, 1081, 1082, 1080, 32, 1073, 1083, 1103, 1096, 1082, 1080]],
     [cps ''L40.0'', cps ''L40.9'']),
    ([[1087, 1091, 1079, 1099, 1088, 1080, 32, 1085, 1072, 32, 1082, 1086, 1078, 1077],
      [1087, 1077, 1084, 1092, 1080, 1075, 1091, 1089],
      [1073, 1091, 1083, 1083, 1105, 1079, 1085],
      [1087, 1091, 1079, 1099, 1088, 1095, 1072, 1090, 1082, 1072],
      [1074, 1086, 1083, 1076, 1099, 1088, 1080, 32, 1090, 1077, 1083, 1086]],
     [cps ''L10.0'', cps ''L10.1'', cps ''L12.0'']),
    ([[1088, 1072, 1089, 1089, 1090, 1088, 1086, 1081, 1089, 1090, 1074, 1086, 32, 1083, 1080,
        1095, 1085, 1086, 1089, 1090, 1080],
      [1087, 1072, 1088, 1072, 1085, 1086, 1080, 1076, 1085],
      [1087, 1086, 1076, 1086, 1079, 1088, 1080, 1090, 1077, 1083, 1100, 1085, 32, 1093, 1072,
        1088, 1072, 1082, 1090, 1077, 1088],
      [1074, 1089, 1087, 1099, 1096, 1082, 1080, 32, 1103, 1088, 1086, 1089, 1090, 1080],
      [1087, 1089, 1080, 1093, 1086, 1087, 1072, 1090]],
     [cps ''F60.0'', cps ''F60.1'', cps ''F60.2'', cps ''F60.3'']),
    ([[1080, 1085, 1075, 1072, 1083, 1103, 1085, 1090],
      [1082, 1083, 1077, 1081, 32, 1085, 1102, 1093, 1072, 1077, 1090],
      [1088, 1072, 1089, 1090, 1074, 1086, 1088, 1080, 1090, 1077, 1083, 1100, 32, 1085, 1102,
        1093, 1072, 1077, 1090],
      [1072, 1094, 1077, 1090, 1086, 1085, 32, 1085, 1102, 1093, 1072, 1077, 1090],
      [1090, 1086, 1082, 1089, 1080, 1082, 1086, 1084, 1072, 1085, 1080, 1103, 32, 1080, 1085,
        1075, 1072, 1083, 1103, 1085, 1090]],
     [cps ''F18.0'', cps ''F18.1'', cps ''F18.2'', cps ''F18.8'']),
    ([[1075, 1072, 1083, 1083, 1102, 1094, 1080, 1085, 1086, 1075, 1077, 1085],
      [1087, 1089, 1080, 1093, 1086, 1076, 1077, 1083, 1080, 1082],
      [1083, 1089, 1076],
      [1075, 1088, 1080, 1073, 1099, 32, 1085, 1072, 1088, 1082, 1086, 1090, 1080, 1082]],
     [cps ''F16.0'', cps ''F16.1'', cps ''F16.2'']),
    ([[1087, 1086, 1089, 1090, 1082, 1086, 1074, 1080, 1076],
      [1087, 1086, 1089, 1083, 1077, 32, 1082, 1086, 1074, 1080, 1076, 1072],
      [1076, 1086, 1083, 1075, 1080, 1081, 32, 1082, 1086, 1074, 1080, 1076],
      [1093, 1088, 1086, 1085, 1080, 1095, 1077, 1089, 1082, 1072, 1103, 32, 1091, 1089, 1090,
        1072, 1083, 1086, 1089, 1090, 1100, 32, 1087, 1086, 1089, 1083, 1077, 32, 99, 111, 118, 105,
        100]],
     [cps ''F06.6'', cps ''F41.2'', cps ''F32.0'']),
    ([[1073, 1083, 1086, 1082, 1072, 1076, 1072, 32, 1085, 1086, 1078, 1082, 1080, 32, 1087, 1091,
        1095, 1082, 1072],
      [1085, 1077, 1087, 1086, 1083, 1085, 1072, 1103, 32, 1073, 1083, 1086, 1082, 1072, 1076,
        1072],
      [1073, 1080, 1092, 1072, 1089, 1094, 1080, 1082, 1091, 1083, 1103, 1088, 1085, 1072, 1103]],
     [cps ''I45.2'', cps ''I44.1'', cps ''I44.0'']),
    ([[1089, 1083, 1072, 1073, 1086, 1089, 1090, 1100, 32, 1089, 1080, 1085, 1091, 1089, 1086,
        1074, 1086, 1075, 1086, 32, 1091, 1079, 1083, 1072],
      [1089, 1089, 1089, 1091],
      [1089, 1080, 1085, 1091, 1089, 1086, 1074, 1072, 1103, 32, 1073, 1088, 1072, 1076, 1080,
        1082, 1072, 1088, 1076, 1080, 1103, 32, 1074, 1099, 1088, 1072, 1078, 1077, 1085, 1085,
        1072, 1103]],
     [cps ''I49.5'', cps ''I44.1''])]"

text \<open>
  \<^verbatim>\<open>
  def local_predict_codes_full(query):
      q = query.lower()
      scores = {}
      full_code_set = set()
      for keywords, codes in KEYWORD_ICD_MAP:
          for kw in keywords:
              if kw.lower() in q:
                  for code in codes:
                      full_code_set.add(code)
                      scores[code] = scores.get(code, 0) + 1
      if not scores:
          return [], set()
      sorted_codes = sorted(scores.items(), key=lambda x: x[1], reverse=True)
      seen = set()
      result = []
      for code, _ in sorted_codes:
          prefix = code[:3]
          if prefix not in seen:
              seen.add(prefix)
              result.append(code)
          if len(result) >= 5:
              break
      return result, full_code_set
  \<close>
  The dict \<open>scores\<close> keeps its keys in insertion order, which the stable sort then sees:
  it is an association list, a new key going to the end.
\<close>

type_synonym score_table = "(ustring \<times> nat) list"

fun bump :: "ustring \<Rightarrow> score_table \<Rightarrow> score_table" where
  "bump code [] = [(code, 1)]"
| "bump code ((k, v) # rest) =
     (if k = code then (k, v + 1) # rest else (k, v) # bump code rest)"

definition votes :: "score_table \<Rightarrow> ustring \<Rightarrow> nat" where
  \<comment> \<open>\<open>scores.get(code, 0)\<close>\<close>
  "votes scores code = (case map_of scores code of None \<Rightarrow> 0 | Some v \<Rightarrow> v)"

fun vote_codes :: "score_table \<times> ustring set \<Rightarrow> ustring list \<Rightarrow> score_table \<times> ustring set" where
  "vote_codes st [] = st"
| "vote_codes (scores, full_code_set) (code # codes) =
     vote_codes (bump code scores, insert code full_code_set) codes"

fun vote_keywords ::
  "ustring \<Rightarrow> ustring list \<Rightarrow> score_table \<times> ustring set \<Rightarrow> ustring list \<Rightarrow> score_table \<times> ustring set"
where
  "vote_keywords q codes st [] = st"
| "vote_keywords q codes st (kw # keywords) =
     vote_keywords q codes (if contains (lower kw) q then vote_codes st codes else st) keywords"

fun vote_rules ::
  "ustring \<Rightarrow> score_table \<times> ustring set \<Rightarrow> (ustring list \<times> ustring list) list \<Rightarrow>
   score_table \<times> ustring set"
where
  "vote_rules q st [] = st"
| "vote_rules q st ((keywords, codes) # rules) =
     vote_rules q (vote_keywords q codes st keywords) rules"

fun pick_prefixes :: "ustring set \<Rightarrow> ustring list \<Rightarrow> score_table \<Rightarrow> ustring list" where
  "pick_prefixes seen result [] = result"
| "pick_prefixes seen result ((code, _) # rest) =
     (let pfx = take 3 code;
          fresh = pfx \<notin> seen;
          seen = (if fresh then insert pfx seen else seen);
          result = (if fresh then result @ [code] else result)
      in if length result \<ge> 5 then result else pick_prefixes seen result rest)"

definition local_predict_codes_full :: "ustring \<Rightarrow> ustring list \<times> ustring set" where
  "local_predict_codes_full query =
     (let q = lower query;
          (scores, full_code_set) = vote_rules q ([], {}) KEYWORD_ICD_MAP
      in if scores = [] then ([], {})
         else let sorted_codes = sort_key (\<lambda>x. - int (snd x)) scores
              in (pick_prefixes {} [] sorted_codes, full_code_set))"

section \<open>generator.py: the fallback without a language model\<close>

text \<open>
  A chunk of the corpus is a dict; the keys the functions here read are the fields, with the
  default of \<open>.get\<close> for a key that is absent. An element of \<open>icd_codes\<close> comes from JSON
  and need not be a string: \<open>NonStr\<close> carries the text \<open>str()\<close> gives it.
\<close>

datatype code_val = Str ustring | NonStr ustring

fun py_str :: "code_val \<Rightarrow> ustring" where
  "py_str (Str s) = s"
| "py_str (NonStr r) = r"

record chunk =
  protocol_id :: ustring
  source_file :: ustring
  chunk_text :: ustring
  icd_codes :: "code_val list"
  all_icd_codes :: "ustring list"
  retrieval_source :: "ustring option"
  rrf_score :: "real option"

record candidate =
  icd10 :: ustring

record stage1_prediction =
  full_codes :: "ustring set"
  candidates :: "candidate list"

text \<open>A diagnosis is a dict too; a key that is absent is \<open>None\<close>.\<close>

record diag =
  rank :: "int option"
  diagnosis :: "ustring option"
  icd10_code :: "ustring option"
  explanation :: "ustring option"

text \<open>
  \<^verbatim>\<open>
  def _ensure_three(result):
      diags = (result or {}).get("diagnoses", []) or []
      diags = diags[:3]
      while len(diags) < 3:
          diags.append({"rank": len(diags) + 1, "diagnosis": "\<emdash>",
                        "icd10_code": "", "explanation": ""})
      for i, d in enumerate(diags, 1):
          d["rank"] = i
          d.setdefault("diagnosis", "\<emdash>")
          d.setdefault("icd10_code", "")
          d.setdefault("explanation", "")
      result["diagnoses"] = diags
      return result
  \<close>
  The result dict is represented by the value of its key \<open>diagnoses\<close>. The dash of the
  placeholder is U+2014.
\<close>

definition placeholder :: "int \<Rightarrow> diag" where
  "placeholder r =
     \<lparr>rank = Some r, diagnosis = Some [8212], icd10_code = Some [], explanation = Some []\<rparr>"

function pad_three :: "diag list \<Rightarrow> diag list" where
  "pad_three diags =
     (if length diags < 3 then pad_three (diags @ [placeholder (int (length diags) + 1)])
      else diags)"
  by pat_completeness auto
termination
  by (relation "measure (\<lambda>diags. 3 - length diags)") auto

declare pad_three.simps [simp del]

definition setdefault :: "'a option \<Rightarrow> 'a \<Rightarrow> 'a option" where
  "setdefault v d = (case v of None \<Rightarrow> Some d | Some x \<Rightarrow> Some x)"

definition renumber_one :: "int \<Rightarrow> diag \<Rightarrow> diag" where
  \<comment> \<open>the body of the last loop\<close>
  "renumber_one i d =
     d\<lparr>rank := Some i,
       diagnosis := setdefault (diagnosis d) [8212],
       icd10_code := setdefault (icd10_code d) [],
       explanation := setdefault (explanation d) []\<rparr>"

fun renumber :: "int \<Rightarrow> diag list \<Rightarrow> diag list" where
  "renumber i [] = []"
| "renumber i (d # ds) = renumber_one i d # renumber (i + 1) ds"

definition ensure_three :: "diag list \<Rightarrow> diag list" where
  "ensure_three diags = renumber 1 (pad_three (take 3 diags))"

text \<open>
  \<^verbatim>\<open>
  def _smart_fallback(chunks, stage1, query=""):
      diagnoses = []
      rank = 1
      seen_codes = set()
      stage1_full = set()
      stage1_prefix = set()
      if stage1:
          for code in (stage1.get("full_codes") or set()):
              stage1_full.add(code)
              stage1_prefix.add(code[:3])
          for c in (stage1.get("candidates") or []):
              code = c.get("icd10", "").strip()
              if code:
                  stage1_full.add(code)
                  stage1_prefix.add(code[:3])
      for chunk_idx, chunk in enumerate(chunks):
          if rank > 3:
              break
          source = chunk.get("source_file", "").replace(".pdf", "")
          all_codes = chunk.get("_all_icd_codes") or chunk.get("icd_codes", []) or []
          all_codes = [str(c).strip() for c in all_codes if str(c).strip()]
          def code_sort_key(c):
              exact     = c in stage1_full
              prefix    = c[:3] in stage1_prefix
              desc_sc   = score_code_vs_query(c, query) if query else 0.0
              has_dot   = "." in c
              return (not exact, not prefix, -desc_sc, not has_dot, c)
          ordered = sorted(all_codes, key=code_sort_key)
          for code in ordered:
              if rank > 3:
                  break
              if code in seen_codes:
                  continue
              seen_codes.add(code)
              diagnoses.append({"rank": rank, "diagnosis": source, "icd10_code": code,
                                "explanation": (...)})
              rank += 1
      return _ensure_three({"diagnoses": diagnoses})
  \<close>
  Tuples compare lexicographically, \<open>False\<close> below \<open>True\<close>, strings by code points.
\<close>

definition stage1_codes :: "stage1_prediction option \<Rightarrow> ustring set" where
  \<comment> \<open>\<open>stage1_full\<close>\<close>
  "stage1_codes stage1 =
     (case stage1 of
        None \<Rightarrow> {}
      | Some s \<Rightarrow>
          full_codes s \<union>
          set (filter (\<lambda>code. code \<noteq> []) (map (\<lambda>c. strip (icd10 c)) (candidates s))))"

definition stage1_prefixes :: "stage1_prediction option \<Rightarrow> ustring set" where
  \<comment> \<open>\<open>stage1_prefix\<close>\<close>
  "stage1_prefixes stage1 = take 3 ` stage1_codes stage1"

definition code_sort_key ::
  "ustring set \<Rightarrow> ustring set \<Rightarrow> ustring \<Rightarrow> ustring \<Rightarrow> bool \<times> bool \<times> real \<times> bool \<times> ustring"
where
  "code_sort_key stage1_full stage1_prefix query c =
     (let exact = c \<in> stage1_full;
          pfx = take 3 c \<in> stage1_prefix;
          desc_sc = (if query \<noteq> [] then score_code_vs_query c query else 0);
          has_dot = 46 \<in> set c
      in (\<not> exact, \<not> pfx, - desc_sc, \<not> has_dot, c))"

definition chunk_codes :: "chunk \<Rightarrow> ustring list" where
  \<comment> \<open>\<open>all_codes\<close>, cleaned\<close>
  "chunk_codes ch =
     (let all_codes = (if all_icd_codes ch \<noteq> [] then all_icd_codes ch
                       else map py_str (icd_codes ch))
      in filter (\<lambda>c. c \<noteq> []) (map strip all_codes))"

definition ordered_codes :: "stage1_prediction option \<Rightarrow> ustring \<Rightarrow> chunk \<Rightarrow> ustring list" where
  \<comment> \<open>\<open>ordered\<close>\<close>
  "ordered_codes stage1 query ch =
     sort_key (code_sort_key (stage1_codes stage1) (stage1_prefixes stage1) query) (chunk_codes ch)"

definition explain :: "ustring \<Rightarrow> nat \<Rightarrow> ustring" where
  "explain source chunk_idx =
     [1055, 1088, 1086, 1090, 1086, 1082, 1086, 1083, 32, 171] @ source @
     [187, 32, 1103, 1074, 1083, 1103, 1077, 1090, 1089, 1103, 32, 1085, 1072, 1080, 1073, 1086,
      1083, 1077, 1077, 32, 1088, 1077, 1083, 1077, 1074, 1072, 1085, 1090, 1085, 1099, 1084, 32,
      1087, 1086, 32, 1076, 1072, 1085, 1085, 1099, 1084, 32, 1089, 1080, 1084, 1087, 1090, 1086,
      1084, 1072, 1084, 32, 40, 114, 101, 114, 97, 110, 107, 101, 114, 32, 112, 111, 115, 105,
      116, 105, 111, 110, 32] @ str_of_nat (chunk_idx + 1) @ [41, 46]"

type_synonym fb_state = "diag list \<times> int \<times> ustring set"

fun emit_codes :: "ustring \<Rightarrow> nat \<Rightarrow> fb_state \<Rightarrow> ustring list \<Rightarrow> fb_state" where
  "emit_codes source chunk_idx st [] = st"
| "emit_codes source chunk_idx (diagnoses, rk, seen_codes) (code # rest) =
     (if rk > 3 then (diagnoses, rk, seen_codes)
      else if code \<in> seen_codes then emit_codes source chunk_idx (diagnoses, rk, seen_codes) rest
      else emit_codes source chunk_idx
             (diagnoses @
                [\<lparr>rank = Some rk, diagnosis = Some source, icd10_code = Some code,
                  explanation = Some (explain source chunk_idx)\<rparr>],
              rk + 1, insert code seen_codes) rest)"

fun walk_chunks ::
  "stage1_prediction option \<Rightarrow> ustring \<Rightarrow> nat \<Rightarrow> fb_state \<Rightarrow> chunk list \<Rightarrow> fb_state"
where
  "walk_chunks stage1 query chunk_idx st [] = st"
| "walk_chunks stage1 query chunk_idx (diagnoses, rk, seen_codes) (ch # rest) =
     (if rk > 3 then (diagnoses, rk, seen_codes)
      else walk_chunks stage1 query (chunk_idx + 1)
             (emit_codes (replace (cps ''.pdf'') [] (source_file ch)) chunk_idx
                (diagnoses, rk, seen_codes) (ordered_codes stage1 query ch))
             rest)"

definition smart_fallback :: "chunk list \<Rightarrow> stage1_prediction option \<Rightarrow> ustring \<Rightarrow> diag list" where
  "smart_fallback chunks stage1 query =
     ensure_three (fst (walk_chunks stage1 query 0 ([], 1, {}) chunks))"

section \<open>Floating point numbers\<close>

text \<open>
  A Python \<open>float\<close> is an IEEE 754 double. An operation on doubles gives the exact result
  rounded to the nearest double, ties to the even significand. The score computations take
  their arithmetic from an \<open>arith\<close>: \<open>fl\<close> rounds an exact result, \<open>log1p\<close> is the library
  function \<open>np.log1p\<close>. \<open>exact\<close> is the arithmetic of the real numbers, without rounding;
  \<open>binary64\<close> rounds to doubles (53 bits of significand, gradual underflow below
  \<open>2\<^sup>-\<^sup>1\<^sup>0\<^sup>2\<^sup>2\<close>; overflow does not occur for the scores, which are below one) around a given
  \<open>log1p\<close>.
\<close>

record arith =
  fl :: "real \<Rightarrow> real"
  log1p :: "real \<Rightarrow> real"

definition exact :: arith where
  "exact = \<lparr>fl = (\<lambda>x. x), log1p = (\<lambda>x. ln (1 + x))\<rparr>"

definition round_half_even :: "real \<Rightarrow> int" where
  "round_half_even y =
     (let f = \<lfloor>y\<rfloor>
      in if y - of_int f < 1 / 2 then f
         else if 1 / 2 < y - of_int f then f + 1
         else if even f then f else f + 1)"

definition binade :: "real \<Rightarrow> int" where
  \<comment> \<open>the exponent \<open>e\<close> with \<open>2\<^sup>e \<le> |x| < 2\<^sup>e\<^sup>+\<^sup>1\<close>\<close>
  "binade x = \<lfloor>log 2 \<bar>x\<bar>\<rfloor>"

definition round_double :: "real \<Rightarrow> real" where
  "round_double x =
     (if x = 0 then 0
      else let e = max (binade x) (- 1022);
               q = 2 powi (e - 52)
           in of_int (round_half_even (x / q)) * q)"

definition binary64 :: "(real \<Rightarrow> real) \<Rightarrow> arith" where
  "binary64 lp = \<lparr>fl = round_double, log1p = lp\<rparr>"

section \<open>retriever.py: the indices built at load time\<close>

text \<open>
  \<^verbatim>\<open>
  for c in self.chunks:
      pid = c.get("protocol_id", "")
      self._pid_n[pid] = self._pid_n.get(pid, 0) + 1
      src = c.get("source_file", "")
      if pid not in self._pid_title:
          self._pid_title[pid] = src
          title_words = re.findall(r'[...a-z]+', src.lower().replace(".pdf", ""))
          for w in title_words:
              if len(w) > 3:
                  self._title_idx.setdefault(w, set()).add(pid)
      for code in (c.get("icd_codes", []) or []):
          if not isinstance(code, str) or not code.strip():
              continue
          code = code.strip()
          self._pid_icd.setdefault(pid, [])
          if code not in self._pid_icd[pid]:
              self._pid_icd[pid].append(code)
          key = self._canon(code)
          self._code_idx.setdefault(key, [])
          if len(self._code_idx[key]) < 3:
              self._code_idx[key].append(c)
          pfx = key[:3]
          self._code_idx.setdefault(pfx, [])
          if len(self._code_idx[pfx]) < 5:
              self._code_idx[pfx].append(c)
  \<close>
  The dicts are maps. A value of \<open>_title_idx\<close> is a Python set, which the title lookup
  iterates in an order the language leaves open: the model keeps the protocols of a word
  without repetition in a list and takes its order for the iteration.
\<close>

record retriever =
  chunks :: "chunk list"
  pid_n :: "ustring \<rightharpoonup> nat"
  pid_icd :: "ustring \<rightharpoonup> ustring list"
  pid_title :: "ustring \<rightharpoonup> ustring"
  code_idx :: "ustring \<rightharpoonup> chunk list"
  title_idx :: "ustring \<rightharpoonup> ustring list"

definition is_alpha_cp :: "nat \<Rightarrow> bool" where
  \<comment> \<open>the regex class \<open>[\<dots>a-z]\<close> with the Cyrillic range U+0430..U+044F and U+0451\<close>
  "is_alpha_cp c \<longleftrightarrow> (1072 \<le> c \<and> c \<le> 1103) \<or> c = 1105 \<or> (97 \<le> c \<and> c \<le> 122)"

definition get_list :: "('k \<rightharpoonup> 'v list) \<Rightarrow> 'k \<Rightarrow> 'v list" where
  \<comment> \<open>\<open>d.get(k, [])\<close>\<close>
  "get_list d k = (case d k of None \<Rightarrow> [] | Some xs \<Rightarrow> xs)"

definition add_capped :: "nat \<Rightarrow> ustring \<Rightarrow> chunk \<Rightarrow> (ustring \<rightharpoonup> chunk list) \<Rightarrow> (ustring \<rightharpoonup> chunk list)" where
  \<comment> \<open>\<open>idx.setdefault(key, [])\<close>, then \<open>append\<close> while the list is shorter than the cap\<close>
  "add_capped cap key c idx =
     (let xs = get_list idx key
      in idx(key \<mapsto> (if length xs < cap then xs @ [c] else xs)))"

fun index_title_words :: "ustring \<Rightarrow> (ustring \<rightharpoonup> ustring list) \<Rightarrow> ustring list \<Rightarrow> (ustring \<rightharpoonup> ustring list)" where
  "index_title_words pid idx [] = idx"
| "index_title_words pid idx (w # ws) =
     index_title_words pid
       (if length w > 3
        then (let ps = get_list idx w in idx(w \<mapsto> (if pid \<in> set ps then ps else ps @ [pid])))
        else idx)
       ws"

fun index_codes :: "chunk \<Rightarrow> retriever \<Rightarrow> code_val list \<Rightarrow> retriever" where
  "index_codes c r [] = r"
| "index_codes c r (NonStr v # rest) = index_codes c r rest"
| "index_codes c r (Str s # rest) =
     (if strip s = [] then index_codes c r rest
      else
        let code = strip s;
            pid = protocol_id c;
            known = get_list (pid_icd r) pid;
            icd = (pid_icd r)(pid \<mapsto> (if code \<in> set known then known else known @ [code]));
            key = canon code;
            idx = add_capped 3 key c (code_idx r);
            pfx = take 3 key;
            idx = add_capped 5 pfx c idx
        in index_codes c (r\<lparr>pid_icd := icd, code_idx := idx\<rparr>) rest)"

definition index_chunk :: "retriever \<Rightarrow> chunk \<Rightarrow> retriever" where
  "index_chunk r c =
     (let pid = protocol_id c;
          r = r\<lparr>pid_n := (pid_n r)(pid \<mapsto> (case pid_n r pid of None \<Rightarrow> 0 | Some n \<Rightarrow> n) + 1)\<rparr>;
          src = source_file c;
          r = (if pid \<notin> dom (pid_title r)
               then r\<lparr>pid_title := (pid_title r)(pid \<mapsto> src),
                      title_idx := index_title_words pid (title_idx r)
                        (findall is_alpha_cp (replace (cps ''.pdf'') [] (lower src)))\<rparr>
               else r)
      in index_codes c r (icd_codes c))"

definition build_index :: "chunk list \<Rightarrow> retriever" where
  \<comment> \<open>\<open>HybridRetriever.__init__\<close>, the part that fills the dicts\<close>
  "build_index cs =
     foldl index_chunk
       \<lparr>chunks = cs, pid_n = Map.empty, pid_icd = Map.empty, pid_title = Map.empty,
        code_idx = Map.empty, title_idx = Map.empty\<rparr> cs"

section \<open>retriever.py: the lookups\<close>

text \<open>
  \<open>_is_junk\<close> is a predicate of a chunk's text (signal substrings, regular expressions, the
  share of citation lines); the lookups only ask it whether a text is junk, and take it as the
  parameter \<open>is_junk\<close>.
  \<^verbatim>\<open>
  def _size_penalty(self, n):
      return 1.0 / (1.0 + np.log1p(n / 5))

  def _enrich(self, chunk, source):
      chunk = dict(chunk)
      pid = chunk.get("protocol_id", "")
      chunk["_all_icd_codes"] = self._pid_icd.get(pid, [])
      chunk["_retrieval_source"] = source
      return chunk
  \<close>
  The quotient \<open>n / 5\<close> of two integers, the sum and the quotient are floats, each rounded.
\<close>

definition size_penalty :: "arith \<Rightarrow> nat \<Rightarrow> real" where
  "size_penalty a n = fl a (1 / fl a (1 + log1p a (fl a (real n / 5))))"

definition enrich :: "retriever \<Rightarrow> chunk \<Rightarrow> ustring \<Rightarrow> chunk" where
  "enrich r ch source =
     ch\<lparr>all_icd_codes := get_list (pid_icd r) (protocol_id ch), retrieval_source := Some source\<rparr>"

text \<open>
  \<^verbatim>\<open>
  def reformulate_query(self, query):
      q_lower = query.lower()
      expansions = []
      for keywords, clinical in SYMPTOM_EXPANSIONS:
          if any(kw in q_lower for kw in keywords):
              expansions.append(clinical)
      if not expansions:
          return query
      return query + " " + " ".join(expansions)
  \<close>
  The rule table \<open>SYMPTOM_EXPANSIONS\<close> is a parameter here: no property below reads it.
\<close>

fun join :: "ustring \<Rightarrow> ustring list \<Rightarrow> ustring" where
  "join sep [] = []"
| "join sep [x] = x"
| "join sep (x # y # ys) = x @ sep @ join sep (y # ys)"

definition reformulate_query :: "(ustring list \<times> ustring) list \<Rightarrow> ustring \<Rightarrow> ustring" where
  "reformulate_query rules query =
     (let q_lower = lower query;
          expansions = map snd (filter (\<lambda>(keywords, clinical). \<exists>kw\<in>set keywords. contains kw q_lower) rules)
      in if expansions = [] then query else query @ [32] @ join [32] expansions)"

text \<open>
  \<^verbatim>\<open>
  def retrieve_by_title_words(self, clinical_query):
      words = re.findall(r'[...a-z]+', clinical_query.lower())
      pid_scores = {}
      for w in words:
          if len(w) < 4:
              continue
          for pid in self._title_idx.get(w, set()):
              pid_scores[pid] = pid_scores.get(pid, 0) + 1
      results = []
      seen = set()
      for pid, _ in sorted(pid_scores.items(), key=lambda x: x[1], reverse=True):
          if pid in seen:
              continue
          seen.add(pid)
          for c in self.chunks:
              if c.get("protocol_id") == pid and not self._is_junk(c.get("text", "")):
                  results.append(self._enrich(c, "title_lookup"))
                  break
      return results
  \<close>
\<close>

fun score_words :: "retriever \<Rightarrow> score_table \<Rightarrow> ustring list \<Rightarrow> score_table" where
  "score_words r pid_scores [] = pid_scores"
| "score_words r pid_scores (w # ws) =
     score_words r
       (if length w < 4 then pid_scores
        else foldl (\<lambda>sc pid. bump pid sc) pid_scores (get_list (title_idx r) w))
       ws"

fun title_hits ::
  "(ustring \<Rightarrow> bool) \<Rightarrow> retriever \<Rightarrow> ustring set \<Rightarrow> chunk list \<Rightarrow> ustring list \<Rightarrow> chunk list"
where
  "title_hits is_junk r seen results [] = results"
| "title_hits is_junk r seen results (pid # pids) =
     (if pid \<in> seen then title_hits is_junk r seen results pids
      else title_hits is_junk r (insert pid seen)
             (case find (\<lambda>c. protocol_id c = pid \<and> \<not> is_junk (chunk_text c)) (chunks r) of
                None \<Rightarrow> results
              | Some c \<Rightarrow> results @ [enrich r c (cps ''title_lookup'')])
             pids)"

definition retrieve_by_title_words :: "(ustring \<Rightarrow> bool) \<Rightarrow> retriever \<Rightarrow> ustring \<Rightarrow> chunk list" where
  "retrieve_by_title_words is_junk r clinical_query =
     (let words = findall is_alpha_cp (lower clinical_query);
          pid_scores = score_words r [] words
      in title_hits is_junk r {} []
           (map fst (sort_key (\<lambda>x. - int (snd x)) pid_scores)))"

text \<open>
  \<^verbatim>\<open>
  def retrieve_by_codes(self, icd_codes):
      seen = set()
      results = []
      for code in icd_codes:
          canon = self._canon(code)
          for key in [canon, canon[:3], canon[:4]]:
              for chunk in self._code_idx.get(key, []):
                  pid = chunk.get("protocol_id", "")
                  if pid not in seen and not self._is_junk(chunk.get("text", "")):
                      seen.add(pid)
                      results.append(self._enrich(chunk, "code_lookup"))
      return results
  \<close>
\<close>

fun code_hits ::
  "(ustring \<Rightarrow> bool) \<Rightarrow> retriever \<Rightarrow> ustring set \<times> chunk list \<Rightarrow> chunk list \<Rightarrow> ustring set \<times> chunk list"
where
  "code_hits is_junk r st [] = st"
| "code_hits is_junk r (seen, results) (ch # rest) =
     (let pid = protocol_id ch
      in if pid \<notin> seen \<and> \<not> is_junk (chunk_text ch)
         then code_hits is_junk r (insert pid seen, results @ [enrich r ch (cps ''code_lookup'')]) rest
         else code_hits is_junk r (seen, results) rest)"

definition code_keys :: "ustring \<Rightarrow> ustring list" where
  "code_keys code = (let c = canon code in [c, take 3 c, take 4 c])"

definition retrieve_by_codes :: "(ustring \<Rightarrow> bool) \<Rightarrow> retriever \<Rightarrow> ustring list \<Rightarrow> chunk list" where
  "retrieve_by_codes is_junk r codes =
     snd (foldl (\<lambda>st key. code_hits is_junk r st (get_list (code_idx r) key)) ({}, [])
            (concat (map code_keys codes)))"

section \<open>retriever.py: reciprocal rank fusion\<close>

text \<open>
  \<^verbatim>\<open>
  def retrieve_semantic(self, query, candidate_k=100):
      vec = self.embed_model.encode("query: " + query, normalize_embeddings=True).tolist()
      dense_hits = self.qdrant.query_points(
          collection_name="protocols", query=vec, limit=candidate_k).points
      tokens = re.findall(r'\b[...a-z0-9]+\b', query.lower())
      bm25_scores = self.bm25.get_scores(tokens)
      bm25_top = np.argsort(bm25_scores)[::-1][:candidate_k]
      rrf = {}
      pid_to_chunk = {}
      for rank, hit in enumerate(dense_hits):
          text = hit.payload.get("text", "")
          if self._is_junk(text):
              continue
          pid = hit.payload.get("protocol_id", "")
          if pid in pid_to_chunk:
              continue
          n = self._pid_n.get(pid, 1)
          p = self._size_penalty(n) * (0.1 if pid in DEPRIORITIZED_PROTOCOLS else 1.0)
          rrf[pid] = rrf.get(pid, 0) + (1.0 / (rank + 60)) * p
          pid_to_chunk[pid] = hit.payload
      for rank, idx in enumerate(bm25_top):
          chunk = self.chunks[idx]
          if self._is_junk(chunk.get("text", "")):
              continue
          pid = chunk.get("protocol_id", "")
          n = self._pid_n.get(pid, 1)
          p = self._size_penalty(n) * (0.1 if pid in DEPRIORITIZED_PROTOCOLS else 1.0)
          rrf[pid] = rrf.get(pid, 0) + (1.0 / (rank + 60)) * p
          if pid not in pid_to_chunk:
              pid_to_chunk[pid] = chunk
      results = []
      for pid in sorted(rrf, key=lambda p: rrf[p], reverse=True):
          if pid not in pid_to_chunk:
              continue
          chunk = self._enrich(pid_to_chunk[pid], "semantic")
          chunk["_rrf_score"] = rrf[pid]
          results.append(chunk)
      return results
  \<close>
  The two searches are the oracles of the function: \<open>dense\<close> gives the payloads of the hits
  of the vector search for a query and a limit, \<open>lexical\<close> the chunks of the corpus in
  descending order of their BM25 score for a query. The global set
  \<open>DEPRIORITIZED_PROTOCOLS\<close> is the parameter \<open>deprioritized\<close>. The keys of the dict
  \<open>rrf\<close> are kept in insertion order in \<open>rrf_keys\<close>, the order the final sort starts from.
  The scores are floats: the literal \<open>0.1\<close> is the float nearest to one tenth, and every
  product, quotient and sum is rounded by the arithmetic \<open>a\<close>.
\<close>

record fusion =
  rrf :: "ustring \<rightharpoonup> real"
  pid_to_chunk :: "ustring \<rightharpoonup> chunk"
  rrf_keys :: "ustring list"

definition damping :: "arith \<Rightarrow> retriever \<Rightarrow> ustring set \<Rightarrow> ustring \<Rightarrow> real" where
  \<comment> \<open>\<open>p\<close>\<close>
  "damping a r deprioritized pid =
     (let n = (case pid_n r pid of None \<Rightarrow> 1 | Some n \<Rightarrow> n)
      in fl a (size_penalty a n * (if pid \<in> deprioritized then fl a (1 / 10) else 1)))"

definition contribution :: "arith \<Rightarrow> nat \<Rightarrow> real \<Rightarrow> real" where
  \<comment> \<open>\<open>(1.0 / (rank + 60)) * p\<close>\<close>
  "contribution a rk p = fl a (fl a (1 / (real rk + 60)) * p)"

definition add_score :: "arith \<Rightarrow> ustring \<Rightarrow> real \<Rightarrow> fusion \<Rightarrow> fusion" where
  \<comment> \<open>\<open>rrf[pid] = rrf.get(pid, 0) + x\<close>\<close>
  "add_score a pid x f =
     f\<lparr>rrf := (rrf f)(pid \<mapsto> fl a ((case rrf f pid of None \<Rightarrow> 0 | Some s \<Rightarrow> s) + x)),
       rrf_keys := (if pid \<in> dom (rrf f) then rrf_keys f else rrf_keys f @ [pid])\<rparr>"

fun dense_loop ::
  "arith \<Rightarrow> (ustring \<Rightarrow> bool) \<Rightarrow> retriever \<Rightarrow> ustring set \<Rightarrow> nat \<Rightarrow> fusion \<Rightarrow> chunk list \<Rightarrow> fusion"
where
  "dense_loop a is_junk r deprioritized rk f [] = f"
| "dense_loop a is_junk r deprioritized rk f (hit # hits) =
     (if is_junk (chunk_text hit) then dense_loop a is_junk r deprioritized (rk + 1) f hits
      else if protocol_id hit \<in> dom (pid_to_chunk f)
      then dense_loop a is_junk r deprioritized (rk + 1) f hits
      else
        let pid = protocol_id hit;
            p = damping a r deprioritized pid;
            f = add_score a pid (contribution a rk p) f;
            f = f\<lparr>pid_to_chunk := (pid_to_chunk f)(pid \<mapsto> hit)\<rparr>
        in dense_loop a is_junk r deprioritized (rk + 1) f hits)"

fun bm25_loop ::
  "arith \<Rightarrow> (ustring \<Rightarrow> bool) \<Rightarrow> retriever \<Rightarrow> ustring set \<Rightarrow> nat \<Rightarrow> fusion \<Rightarrow> chunk list \<Rightarrow> fusion"
where
  "bm25_loop a is_junk r deprioritized rk f [] = f"
| "bm25_loop a is_junk r deprioritized rk f (ch # rest) =
     (if is_junk (chunk_text ch) then bm25_loop a is_junk r deprioritized (rk + 1) f rest
      else
        let pid = protocol_id ch;
            p = damping a r deprioritized pid;
            f = add_score a pid (contribution a rk p) f;
            f = (if pid \<notin> dom (pid_to_chunk f) then f\<lparr>pid_to_chunk := (pid_to_chunk f)(pid \<mapsto> ch)\<rparr>
                 else f)
        in bm25_loop a is_junk r deprioritized (rk + 1) f rest)"

definition fuse ::
  "arith \<Rightarrow> (ustring \<Rightarrow> bool) \<Rightarrow> retriever \<Rightarrow> ustring set \<Rightarrow> chunk list \<Rightarrow> chunk list \<Rightarrow> fusion"
where
  \<comment> \<open>the two loops, from the empty dicts\<close>
  "fuse a is_junk r deprioritized dense_hits bm25_top =
     bm25_loop a is_junk r deprioritized 0
       (dense_loop a is_junk r deprioritized 0
          \<lparr>rrf = Map.empty, pid_to_chunk = Map.empty, rrf_keys = []\<rparr> dense_hits)
       bm25_top"

definition rrf_score_of :: "fusion \<Rightarrow> ustring \<Rightarrow> real" where
  \<comment> \<open>\<open>rrf.get(pid, 0)\<close>\<close>
  "rrf_score_of f pid = (case rrf f pid of None \<Rightarrow> 0 | Some s \<Rightarrow> s)"

definition fused_results :: "retriever \<Rightarrow> fusion \<Rightarrow> chunk list" where
  "fused_results r f =
     concat (map (\<lambda>pid. case pid_to_chunk f pid of
                          None \<Rightarrow> []
                        | Some ch \<Rightarrow> [(enrich r ch (cps ''semantic''))\<lparr>rrf_score := rrf f pid\<rparr>])
               (sort_key (\<lambda>pid. - rrf_score_of f pid) (rrf_keys f)))"

definition retrieve_semantic ::
  "arith \<Rightarrow> (ustring \<Rightarrow> bool) \<Rightarrow> retriever \<Rightarrow> ustring set \<Rightarrow> (ustring \<Rightarrow> nat \<Rightarrow> chunk list) \<Rightarrow>
   (ustring \<Rightarrow> chunk list) \<Rightarrow> ustring \<Rightarrow> nat \<Rightarrow> chunk list"
where
  "retrieve_semantic a is_junk r deprioritized dense lexical query candidate_k =
     fused_results r
       (fuse a is_junk r deprioritized (dense query candidate_k) (take candidate_k (lexical query)))"

section \<open>retriever.py: merging the candidates\<close>

text \<open>
  \<^verbatim>\<open>
  def retrieve(self, query, candidate_codes=None, top_k=10, hyde_query=None, extra_queries=None):
      clinical_query = self.reformulate_query(query)
      seen = set()
      all_candidates = []
      def add(chunks):
          for c in chunks:
              pid = c.get("protocol_id", "")
              if pid not in seen:
                  seen.add(pid)
                  all_candidates.append(c)
      add(self.retrieve_by_title_words(clinical_query))
      if candidate_codes:
          add(self.retrieve_by_codes(candidate_codes))
      add(self.retrieve_semantic(clinical_query, candidate_k=100))
      if hyde_query and hyde_query != query:
          add(self.retrieve_semantic(hyde_query, candidate_k=60))
      if extra_queries:
          for eq in extra_queries:
              if eq and eq != query:
                  add(self.retrieve_semantic(eq, candidate_k=40))
      return self.rerank(query, all_candidates, top_k=top_k)
  \<close>
  \<open>candidate_sources\<close> lists what the calls of \<open>add\<close> receive, in the order of the calls,
  with the empty list where a strategy does not run; \<open>retrieve_candidates\<close> is
  \<open>all_candidates\<close> when \<open>rerank\<close> is called.
\<close>

record env =
  arithmetic :: arith
  junk_filter :: "ustring \<Rightarrow> bool"
  corpus_index :: retriever
  deprioritized_protocols :: "ustring set"
  vector_search :: "ustring \<Rightarrow> nat \<Rightarrow> chunk list"
  lexical_search :: "ustring \<Rightarrow> chunk list"
  symptom_expansions :: "(ustring list \<times> ustring) list"

fun add :: "ustring set \<times> chunk list \<Rightarrow> chunk list \<Rightarrow> ustring set \<times> chunk list" where
  "add st [] = st"
| "add (seen, all_candidates) (c # cs) =
     (let pid = protocol_id c
      in if pid \<notin> seen then add (insert pid seen, all_candidates @ [c]) cs
         else add (seen, all_candidates) cs)"

definition semantic :: "env \<Rightarrow> ustring \<Rightarrow> nat \<Rightarrow> chunk list" where
  "semantic e q k =
     retrieve_semantic (arithmetic e) (junk_filter e) (corpus_index e) (deprioritized_protocols e) (vector_search e) (lexical_search e) q k"

definition candidate_sources ::
  "env \<Rightarrow> ustring \<Rightarrow> ustring list option \<Rightarrow> ustring option \<Rightarrow> ustring list option \<Rightarrow> chunk list list"
where
  "candidate_sources e query candidate_codes hyde_query extra_queries =
     (let clinical_query = reformulate_query (symptom_expansions e) query
      in [retrieve_by_title_words (junk_filter e) (corpus_index e) clinical_query,
          (case candidate_codes of
             None \<Rightarrow> []
           | Some codes \<Rightarrow> if codes = [] then [] else retrieve_by_codes (junk_filter e) (corpus_index e) codes),
          semantic e clinical_query 100,
          (case hyde_query of
             None \<Rightarrow> []
           | Some h \<Rightarrow> if h \<noteq> [] \<and> h \<noteq> query then semantic e h 60 else [])] @
         (case extra_queries of
            None \<Rightarrow> []
          | Some eqs \<Rightarrow> map (\<lambda>eq. if eq \<noteq> [] \<and> eq \<noteq> query then semantic e eq 40 else []) eqs))"

definition retrieve_candidates ::
  "env \<Rightarrow> ustring \<Rightarrow> ustring list option \<Rightarrow> ustring option \<Rightarrow> ustring list option \<Rightarrow> chunk list"
where
  "retrieve_candidates e query candidate_codes hyde_query extra_queries =
     snd (foldl add ({}, []) (candidate_sources e query candidate_codes hyde_query extra_queries))"

definition source_tag :: "nat \<Rightarrow> ustring" where
  \<comment> \<open>the tag \<open>_enrich\<close> gives in the strategy at a position of \<open>candidate_sources\<close>\<close>
  "source_tag i =
     (if i = 0 then cps ''title_lookup'' else if i = 1 then cps ''code_lookup'' else cps ''semantic'')"

section \<open>generator.py: tolerant extraction of JSON\<close>

text \<open>
  \<^verbatim>\<open>
  def _extract_json(text):
      if not text:
          return None
      text = text.strip()
      if "```" in text:
          m = re.search(r'```(?:json)?\s*([\s\S]*?)\s*```', text)
          if m:
              text = m.group(1).strip()
      if not text.startswith("{"):
          m = re.search(r'\{[\s\S]*\}', text)
          if m:
              text = m.group(0)
      try:
          data = json.loads(text)
          if isinstance(data, list):
              return {"diagnoses": [
                  {**d, "rank": d.get("rank", i + 1)}
                  for i, d in enumerate(data[:3])
              ]}
          return data if isinstance(data, dict) else None
      except Exception:
          return None
  \<close>
  \<open>json.loads\<close> is the parser of the standard library: it is the parameter \<open>loads\<close>, with
  \<open>None\<close> where it raises. A dict is an association list with distinct keys, in insertion order.
  The string surgery before the parser is \<open>prepare\<close>, the work on the parsed value is \<open>finish\<close>.
\<close>

datatype json =
  JNull | JBool bool | JInt int | JFloat real | JStr ustring | JArr "json list"
  | JObj "(ustring \<times> json) list"

fun split_at :: "ustring \<Rightarrow> ustring \<Rightarrow> ustring \<Rightarrow> (ustring \<times> ustring) option" where
  \<comment> \<open>the text before and after the first occurrence of a non-empty needle\<close>
  "split_at needle before [] = None"
| "split_at needle before (c # cs) =
     (if take (length needle) (c # cs) = needle
      then Some (before, drop (length needle) (c # cs))
      else split_at needle (before @ [c]) cs)"

definition fence :: "ustring \<Rightarrow> ustring option" where
  \<comment> \<open>group 1 of the first match of the code fence pattern, stripped: the text between the
      first fence, an optional \<open>json\<close> after it, and the next fence\<close>
  "fence s =
     (case split_at [96, 96, 96] [] s of
        None \<Rightarrow> None
      | Some (_, rest) \<Rightarrow>
          (let rest = (if take 4 rest = cps ''json'' then drop 4 rest else rest)
           in case split_at [96, 96, 96] [] rest of
                None \<Rightarrow> None
              | Some (content, _) \<Rightarrow> Some (strip content)))"

definition brace_span :: "ustring \<Rightarrow> ustring option" where
  \<comment> \<open>the match of the greedy brace pattern: from the first opening brace to the last closing
      brace after it\<close>
  "brace_span s =
     (let t = dropWhile (\<lambda>c. c \<noteq> 123) s
      in if 125 \<in> set t then Some (rev (dropWhile (\<lambda>c. c \<noteq> 125) (rev t))) else None)"

definition prepare :: "ustring \<Rightarrow> ustring" where
  "prepare text0 =
     (let text = strip text0;
          text = (if contains [96, 96, 96] text
                  then (case fence text of None \<Rightarrow> text | Some g \<Rightarrow> g) else text)
      in if take 1 text \<noteq> [123]
         then (case brace_span text of None \<Rightarrow> text | Some g \<Rightarrow> g)
         else text)"

fun is_dict :: "json \<Rightarrow> bool" where
  "is_dict (JObj kv) = True"
| "is_dict _ = False"

fun with_rank :: "nat \<Rightarrow> json \<Rightarrow> json" where
  \<comment> \<open>\<open>{**d, "rank": d.get("rank", i + 1)}\<close> for a dict \<open>d\<close>\<close>
  "with_rank i (JObj kv) =
     JObj (if cps ''rank'' \<in> fst ` set kv then kv else kv @ [(cps ''rank'', JInt (int i + 1))])"
| "with_rank i d = d"

definition finish :: "json option \<Rightarrow> json option" where
  "finish parsed =
     (case parsed of
        None \<Rightarrow> None
      | Some (JArr xs) \<Rightarrow>
          (if list_all is_dict (take 3 xs)
           then Some (JObj [(cps ''diagnoses'',
                  JArr (map (\<lambda>(i, d). with_rank i d) (enumerate 0 (take 3 xs))))])
           else None)
      | Some (JObj kv) \<Rightarrow> Some (JObj kv)
      | Some _ \<Rightarrow> None)"

definition extract_json :: "(ustring \<Rightarrow> json option) \<Rightarrow> ustring \<Rightarrow> json option" where
  "extract_json loads text = (if text = [] then None else finish (loads (prepare text)))"

section \<open>The order of the codes, in the words of the specification\<close>


section \<open>Vocabulary of the proof about the fallback\<close>

text \<open>
  What the two loops of the fallback keep true of \<open>(diagnoses, rank, seen_codes)\<close>: the
  rank is one more than the number of entries, there are at most three, and they already
  carry the ranks and fields the last loop of \<open>_ensure_three\<close> would give them.
\<close>

definition fb_inv :: "fb_state \<Rightarrow> bool" where
  "fb_inv st =
     (case st of (diagnoses, rk, seen_codes) \<Rightarrow>
        rk = int (length diagnoses) + 1 \<and> length diagnoses \<le> 3 \<and>
        renumber 1 diagnoses = diagnoses)"

section \<open>Vocabulary of the proofs about the code index\<close>

text \<open>
  The index build changes \<open>_code_idx\<close> only in the loop over the codes of a chunk. The
  registrations in the order the build makes them are the events (chunk, stripped code); one
  event appends the chunk under the canonical key, then under its first three characters.
\<close>

definition valid_codes :: "code_val list \<Rightarrow> ustring list" where
  "valid_codes vs = concat (map (\<lambda>v. case v of Str s \<Rightarrow> (if strip s = [] then [] else [strip s]) | NonStr _ \<Rightarrow> []) vs)"

definition code_step :: "(ustring \<rightharpoonup> chunk list) \<Rightarrow> chunk \<times> ustring \<Rightarrow> (ustring \<rightharpoonup> chunk list)" where
  "code_step idx e = add_capped 5 (take 3 (canon (snd e))) (fst e) (add_capped 3 (canon (snd e)) (fst e) idx)"

definition code_events :: "chunk list \<Rightarrow> (chunk \<times> ustring) list" where
  "code_events cs = concat (map (\<lambda>c. map (\<lambda>code. (c, code)) (valid_codes (icd_codes c))) cs)"

definition cap_inv :: "(ustring \<rightharpoonup> chunk list) \<Rightarrow> bool" where
  "cap_inv idx \<longleftrightarrow>
     (\<forall>k. length (get_list idx k) \<le> 5 \<and> (3 < length k \<longrightarrow> length (get_list idx k) \<le> 3))"

definition from_events :: "(chunk \<times> ustring) set \<Rightarrow> (ustring \<rightharpoonup> chunk list) \<Rightarrow> bool" where
  "from_events S idx \<longleftrightarrow>
     (\<forall>k. \<forall>x\<in>set (get_list idx k).
        \<exists>code. (x, code) \<in> S \<and> (k = canon code \<or> k = take 3 (canon code)))"

section \<open>Vocabulary of the proofs about deprioritized protocols\<close>



section \<open>Vocabulary of the proof about the merge\<close>

text \<open>
  What the calls of \<open>add\<close> keep of a stream of chunks: the first chunk of every protocol
  that is not in \<open>seen\<close> yet.
\<close>

fun first_seen :: "ustring set \<Rightarrow> chunk list \<Rightarrow> chunk list" where
  "first_seen seen [] = []"
| "first_seen seen (c # cs) =
     (if protocol_id c \<in> seen then first_seen seen cs
      else c # first_seen (insert (protocol_id c) seen) cs)"

section \<open>Inputs of the examples\<close>

text \<open>
  \<open>query_block\<close> is the Russian query "blokada vtoroi stepeni" (block of the second degree),
  \<open>source_block\<close> the file name "Blokada.pdf", both in Cyrillic letters.
\<close>

definition query_block :: ustring where
  "query_block =
     [1073, 1083, 1086, 1082, 1072, 1076, 1072, 32, 1074, 1090, 1086, 1088, 1086, 1081, 32, 1089,
      1090, 1077, 1087, 1077, 1085, 1080]"



text \<open>
  \<open>query_brady\<close> is the query "Bradikardiya, redkii puls" (bradycardia, slow pulse);
  \<open>kw_brady\<close> ("bradikard") and \<open>kw_pulse\<close> ("redkii puls") are two keywords of the
  eleventh rule of \<open>KEYWORD_ICD_MAP\<close>, the rule of the AV block codes.
\<close>

definition query_brady :: ustring where
  "query_brady =
     [1041, 1088, 1072, 1076, 1080, 1082, 1072, 1088, 1076, 1080, 1103, 44, 32, 1088, 1077, 1076,
      1082, 1080, 1081, 32, 1087, 1091, 1083, 1100, 1089]"

definition kw_brady :: ustring where
  "kw_brady = [1073, 1088, 1072, 1076, 1080, 1082, 1072, 1088, 1076]"

definition kw_pulse :: ustring where
  "kw_pulse = [1088, 1077, 1076, 1082, 1080, 1081, 32, 1087, 1091, 1083, 1100, 1089]"

definition av_block_rule :: "ustring list \<times> ustring list" where
  "av_block_rule = KEYWORD_ICD_MAP ! 10"

text \<open>
  Chunks as the corpus file has them. \<open>chunk_femur\<close> carries the code \<open>S72.00\<close>, a blank
  string and a number; \<open>chunk_ms1\<close> and \<open>chunk_ms2\<close> carry the three-character code
  \<open>G35\<close>.
\<close>

definition raw_chunk :: "ustring \<Rightarrow> ustring \<Rightarrow> ustring \<Rightarrow> code_val list \<Rightarrow> chunk" where
  "raw_chunk pid src txt codes =
     \<lparr>protocol_id = pid, source_file = src, chunk_text = txt, icd_codes = codes,
      all_icd_codes = [], retrieval_source = None, rrf_score = None\<rparr>"

definition chunk_femur :: chunk where
  "chunk_femur =
     raw_chunk (cps ''p_femur'') (cps ''femur.pdf'') (cps ''fracture of femur'')
       [Str (cps ''S72.00''), Str (cps '' ''), NonStr (cps ''5'')]"

definition chunk_ms1 :: chunk where
  "chunk_ms1 = raw_chunk (cps ''p_ms'') (cps ''sclerosis.pdf'') (cps ''multiple sclerosis'') [Str (cps ''G35'')]"

definition chunk_ms2 :: chunk where
  "chunk_ms2 = raw_chunk (cps ''p_ms'') (cps ''sclerosis.pdf'') (cps ''course and treatment'') [Str (cps ''G35'')]"

text \<open>
  A corpus of four chunks and the oracles of one request: the vector search gives the chunk
  \<open>chunk_flu\<close> for the hypothetical document \<open>query_hyde\<close> and \<open>chunk_ms2\<close> for every
  other query, the lexical search gives nothing, no text is junk.
\<close>

definition chunk_flu :: chunk where
  "chunk_flu = raw_chunk (cps ''p_flu'') (cps ''influenza.pdf'') (cps ''fever and cough'') [Str (cps ''J10.1'')]"

definition query_ms :: ustring where
  "query_ms = cps ''multiple sclerosis''"

definition query_hyde :: ustring where
  "query_hyde = cps ''fever cough''"

definition env_example :: env where
  "env_example =
     \<lparr>arithmetic = exact, junk_filter = (\<lambda>t. False),
      corpus_index = build_index [chunk_ms1, chunk_ms2, chunk_femur, chunk_flu],
      deprioritized_protocols = {},
      vector_search = (\<lambda>q k. if q = query_hyde then [chunk_flu] else [chunk_ms2]),
      lexical_search = (\<lambda>q. []),
      symptom_expansions = []\<rparr>"

text \<open>
  \<open>text_array\<close> is the JSON array of two objects
  \<^verbatim>\<open>[{"diagnosis": "A"}, {"diagnosis": "B"}]\<close>, \<open>text_cut\<close> the same text without its
  brackets, \<^verbatim>\<open>{"diagnosis": "A"}, {"diagnosis": "B"}\<close>, which is not a JSON document.
\<close>

definition text_array :: ustring where
  "text_array =
     [91, 123, 34, 100, 105, 97, 103, 110, 111, 115, 105, 115, 34, 58, 32, 34, 65, 34, 125, 44,
      32, 123, 34, 100, 105, 97, 103, 110, 111, 115, 105, 115, 34, 58, 32, 34, 66, 34, 125, 93]"

definition text_cut :: ustring where
  "text_cut =
     [123, 34, 100, 105, 97, 103, 110, 111, 115, 105, 115, 34, 58, 32, 34, 65, 34, 125, 44, 32,
      123, 34, 100, 105, 97, 103, 110, 111, 115, 105, 115, 34, 58, 32, 34, 66, 34, 125]"


text \<open>
  The \<open>log1p\<close> of the example in doubles: the double \<open>0.33647223662121295\<close> that
  \<open>log1p\<close> returns for the double \<open>0.4\<close>, the only argument the example passes to it.
\<close>

definition log1p_example :: "real \<Rightarrow> real" where
  "log1p_example x = 378834059866953 / 2 ^ 50"

section \<open>Canonicalisation is idempotent\<close>

lemma upper_cp_alnum: "is_upper_alnum c \<Longrightarrow> upper_cp c = [c]"
  by (auto simp: is_upper_alnum_def upper_cp_def upper_special_def)

lemma upper_alnum: "\<forall>x\<in>set s. is_upper_alnum x \<Longrightarrow> upper s = s"
  by (induction s) (simp_all add: upper_def upper_cp_alnum)

lemma alnum_not_space: "is_upper_alnum c \<Longrightarrow> \<not> is_space c \<and> c \<noteq> 46"
  by (auto simp: is_upper_alnum_def is_space_def)

lemma dropWhile_none: "\<forall>x\<in>set s. \<not> P x \<Longrightarrow> dropWhile P s = s"
  by (cases s) auto

lemma strip_no_space: "\<forall>x\<in>set s. \<not> is_space x \<Longrightarrow> strip s = s"
  by (simp add: strip_def dropWhile_none)

lemma canon_alnum:
  assumes h: "\<forall>x\<in>set s. is_upper_alnum x"
  shows "canon s = s"
proof -
  have u: "upper s = s"
    using h by (rule upper_alnum)
  have s: "strip s = s"
    using h by (intro strip_no_space) (simp add: alnum_not_space)
  have f: "filter (\<lambda>x. \<not> (is_space x \<or> x = 46)) s = s"
    using h by (simp add: alnum_not_space)
  have g: "filter is_upper_alnum s = s"
    using h by simp
  show ?thesis
    unfolding canon_def Let_def u s f g ..
qed

lemma canon_set: "\<forall>x\<in>set (canon s). is_upper_alnum x"
  by (simp add: canon_def)

lemma cps_simps:
  "cps [] = []" "cps (c # cs) = of_char c # cps cs"
  by (simp_all add: cps_def)

lemmas canon_eval =
  canon_def cps_simps upper_def upper_cp_def upper_special_def strip_def is_space_def
  is_upper_alnum_def

lemma canon_I441_dot: "canon (cps ''I44.1'') = cps ''I441''"
  by (simp add: canon_eval)

lemma canon_I441_plain: "canon (cps ''I441'') = cps ''I441''"
  by (simp add: canon_eval)

lemma canon_I441_lower: "canon (cps ''i 44.1'') = cps ''I441''"
  by (simp add: canon_eval)

text \<open>
  C7: canonicalisation is idempotent on every string, and the three spellings
  \<open>I44.1\<close>, \<open>I441\<close> and \<open>i 44.1\<close> of one code have the same canonical form.
\<close>

theorem canon_idempotent_insensitive:
  "canon (canon c) = canon c \<and>
   canon (cps ''I44.1'') = canon (cps ''I441'') \<and>
   canon (cps ''I441'') = canon (cps ''i 44.1'')"
  using canon_alnum [OF canon_set, of c]
  by (simp add: canon_I441_dot canon_I441_plain canon_I441_lower)

lemma canon_dotless_i: "canon [305, 52, 52, 46, 49] = cps ''I441''"
  by (simp add: canon_eval)

theorem canon_idempotent_insensitive_witness:
  "canon (canon (cps ''i 44.1'')) = cps ''I441''"
  using canon_idempotent_insensitive [of "cps ''i 44.1''"]
  by (simp add: canon_I441_lower)

section \<open>The overlap score stays below one\<close>

lemma overlap_score_bounds: "0 \<le> overlap_score desc query \<and> overlap_score desc query < 1"
proof -
  let ?q = "set (findall is_word_cp (lower query))"
  let ?d = "set (findall is_word_cp (lower desc))"
  have "card (?q \<inter> ?d) \<le> card ?d"
    by (intro card_mono) auto
  then have "real (card (?q \<inter> ?d)) < real (card ?d + 1)"
    by simp
  then show ?thesis
    by (simp add: overlap_score_def Let_def)
qed

text \<open>
  C9: for every code and every query the description overlap score lies in \<open>[0, 1)\<close>: the
  tokens shared with the description are at most the description's tokens, one fewer than
  the divisor.
\<close>

theorem score_code_vs_query_bounds:
  "0 \<le> score_code_vs_query code query \<and> score_code_vs_query code query < 1"
  using overlap_score_bounds [of _ query]
  by (simp add: score_code_vs_query_def Let_def)

lemma overlap_score_lists:
  "overlap_score desc query =
     (let q = findall is_word_cp (lower query); d = findall is_word_cp (lower desc)
      in if d = [] then 0
         else real (length (remdups (filter (\<lambda>x. x \<in> set q) d))) /
              real (length (remdups d) + 1))"
  by (simp add: overlap_score_def Let_def card_set [symmetric] inter_set_filter)


lemma desc_I441:
  "map_of ICD_DESCRIPTIONS (cps ''I44.1'') = Some
     [1087, 1088, 1077, 1076, 1089, 1077, 1088, 1076, 1085, 1086, 45, 1078, 1077, 1083, 1091,
      1076, 1086, 1095, 1082, 1086, 1074, 1072, 1103, 32, 1073, 1083, 1086, 1082, 1072, 1076,
      1072, 32, 1074, 1090, 1086, 1088, 1086, 1081, 32, 1089, 1090, 1077, 1087, 1077, 1085, 1080,
      32, 65, 86, 32, 1073, 1083, 1086, 1082, 1072, 1076, 1072, 32, 50, 32, 1089, 1090, 1077,
      1087, 1077, 1085, 1080, 32, 1052, 1086, 1073, 1080, 1090, 1094, 32, 1074, 1099, 1087, 1072,
      1076, 1077, 1085, 1080, 1077, 32, 81, 82, 83]"
  by (simp add: ICD_DESCRIPTIONS_def cps_simps)


lemmas score_eval =
  score_code_vs_query_def overlap_score_lists findall_def lower_def lower_cp_def is_word_cp_def
  query_block_def


lemma score_I441: "score_code_vs_query (cps ''I44.1'') query_block = 3 / 11"
  by (simp add: score_eval desc_I441)


theorem score_code_vs_query_bounds_witness:
  "score_code_vs_query (cps ''I44.1'') query_block = 3 / 11 \<and>
   0 \<le> score_code_vs_query (cps ''I44.1'') query_block \<and>
   score_code_vs_query (cps ''I44.1'') query_block < 1"
  using score_code_vs_query_bounds [of "cps ''I44.1''" query_block]
  by (simp add: score_I441)

section \<open>The fallback returns three numbered entries\<close>

lemma renumber_append:
  "renumber i (xs @ ys) = renumber i xs @ renumber (i + int (length xs)) ys"
  by (induction xs arbitrary: i) (simp_all add: add.assoc)

lemma length_renumber: "length (renumber i ds) = length ds"
  by (induction ds arbitrary: i) simp_all

lemma renumber_one_placeholder: "i = j \<Longrightarrow> renumber_one i (placeholder j) = placeholder j"
  by (simp add: renumber_one_def placeholder_def setdefault_def)

lemma rank_renumber_one: "rank (renumber_one i d) = Some i"
  by (simp add: renumber_one_def)

lemma pad_three_3: "length ds = 3 \<Longrightarrow> pad_three ds = ds"
  by (subst pad_three.simps) simp

lemma pad_three_2: "length ds = 2 \<Longrightarrow> pad_three ds = ds @ [placeholder 3]"
  by (subst pad_three.simps) (simp add: pad_three_3)

lemma pad_three_1: "length ds = 1 \<Longrightarrow> pad_three ds = ds @ [placeholder 2, placeholder 3]"
  by (subst pad_three.simps) (simp add: pad_three_2)

lemma pad_three_0: "pad_three [] = [placeholder 1, placeholder 2, placeholder 3]"
  by (subst pad_three.simps) (simp add: pad_three_1)

lemma pad_three_eq:
  assumes "length ds \<le> 3"
  shows "pad_three ds = ds @ map (\<lambda>i. placeholder (int i + 1)) [length ds..<3]"
proof -
  consider "length ds = 0" | "length ds = 1" | "length ds = 2" | "length ds = 3"
    using assms by linarith
  then show ?thesis
  proof cases
    case 1
    then show ?thesis by (simp add: pad_three_0 upt_rec)
  next
    case 2
    then show ?thesis by (simp add: pad_three_1 upt_rec)
  next
    case 3
    then show ?thesis by (simp add: pad_three_2 upt_rec)
  next
    case 4
    then show ?thesis by (simp add: pad_three_3)
  qed
qed

lemma renumber_placeholders:
  "renumber (int n + 1) (map (\<lambda>i. placeholder (int i + 1)) [n..<m]) =
   map (\<lambda>i. placeholder (int i + 1)) [n..<m]"
proof (induction m)
  case 0
  then show ?case by simp
next
  case (Suc m)
  show ?case
  proof (cases "n \<le> m")
    case True
    then have "int n + 1 + int (m - n) = int m + 1" by simp
    with True Suc show ?thesis
      by (simp add: renumber_append renumber_one_placeholder)
  next
    case False
    then show ?thesis by simp
  qed
qed

lemma emit_codes_inv: "fb_inv st \<Longrightarrow> fb_inv (emit_codes source chunk_idx st codes)"
proof (induction source chunk_idx st codes rule: emit_codes.induct)
  case (1 source chunk_idx st)
  then show ?case by simp
next
  case (2 source chunk_idx diagnoses rk seen_codes code rest)
  show ?case
  proof (cases "rk > 3 \<or> code \<in> seen_codes")
    case True
    with 2 show ?thesis by auto
  next
    case False
    let ?d = "\<lparr>rank = Some rk, diagnosis = Some source, icd10_code = Some code,
               explanation = Some (explain source chunk_idx)\<rparr>"
    have "fb_inv (diagnoses @ [?d], rk + 1, insert code seen_codes)"
      using "2.prems" False
      by (simp add: fb_inv_def renumber_append renumber_one_def setdefault_def)
    with 2 False show ?thesis by simp
  qed
qed

lemma walk_chunks_inv: "fb_inv st \<Longrightarrow> fb_inv (walk_chunks stage1 query chunk_idx st evs)"
proof (induction stage1 query chunk_idx st evs rule: walk_chunks.induct)
  case (1 stage1 query chunk_idx st)
  then show ?case by simp
next
  case (2 stage1 query chunk_idx diagnoses rk seen_codes ch rest)
  then show ?case
    by (cases "rk > 3") (simp_all add: emit_codes_inv)
qed

lemma fb_inv_init: "fb_inv ([], 1, {})"
  by (simp add: fb_inv_def)

lemma ensure_three_emitted:
  assumes "length ds \<le> 3" and "renumber 1 ds = ds"
  shows "ensure_three ds = ds @ map (\<lambda>i. placeholder (int i + 1)) [length ds..<3]"
proof -
  let ?P = "map (\<lambda>i. placeholder (int i + 1)) [length ds..<3]"
  have "ensure_three ds = renumber 1 (pad_three ds)"
    using assms(1) by (simp add: ensure_three_def)
  also have "\<dots> = renumber 1 (ds @ ?P)"
    using assms(1) by (simp only: pad_three_eq)
  also have "\<dots> = renumber 1 ds @ renumber (int (length ds) + 1) ?P"
    by (simp only: renumber_append add.commute)
  also have "\<dots> = ds @ ?P"
    by (simp only: assms(2) renumber_placeholders)
  finally show ?thesis .
qed

lemma renumber_ranks: "map rank (renumber i ds) = map (\<lambda>k. Some (i + int k)) [0..<length ds]"
proof (induction ds arbitrary: i)
  case Nil
  then show ?case by simp
next
  case (Cons d ds)
  have "[0..<Suc (length ds)] = 0 # map Suc [0..<length ds]"
    by (simp add: upt_conv_Cons map_Suc_upt del: upt_Suc)
  then show ?case
    using Cons [of "i + 1"] by (simp add: comp_def add.assoc rank_renumber_one del: upt_Suc)
qed

lemma ensure_three_ranks:
  "length (ensure_three ds) = 3 \<and> map rank (ensure_three ds) = [Some 1, Some 2, Some 3]"
proof -
  have "length (pad_three xs) = 3" if "length xs \<le> 3" for xs :: "diag list"
  proof -
    have "length (pad_three xs) = length xs + (3 - length xs)"
      using that by (simp only: pad_three_eq length_append length_map length_upt)
    then show ?thesis using that by simp
  qed
  then have n: "length (pad_three (take 3 ds)) = 3"
    by simp
  show ?thesis
    unfolding ensure_three_def
    by (simp only: renumber_ranks length_renumber n) (simp add: upt_rec)
qed

text \<open>
  C5: on every input, an empty evidence list included, the fallback returns exactly three
  entries with the ranks 1, 2, 3 in this order: the entries it emitted from the evidence (at
  most three, unchanged), then placeholders (diagnosis a dash, code and explanation empty).
\<close>

theorem smart_fallback_three:
  "length (smart_fallback evs stage1 query) = 3 \<and>
   map rank (smart_fallback evs stage1 query) = [Some 1, Some 2, Some 3] \<and>
   length (fst (walk_chunks stage1 query 0 ([], 1, {}) evs)) \<le> 3 \<and>
   smart_fallback evs stage1 query =
     fst (walk_chunks stage1 query 0 ([], 1, {}) evs) @
     map (\<lambda>i. placeholder (int i + 1))
       [length (fst (walk_chunks stage1 query 0 ([], 1, {}) evs))..<3] \<and>
   smart_fallback [] stage1 query = [placeholder 1, placeholder 2, placeholder 3]"
proof -
  obtain ds rk seen where w: "walk_chunks stage1 query 0 ([], 1, {}) evs = (ds, rk, seen)"
    by (cases "walk_chunks stage1 query 0 ([], 1, {}) evs") auto
  have "fb_inv (ds, rk, seen)"
    using walk_chunks_inv [OF fb_inv_init, of stage1 query 0 evs] w by simp
  then have a: "length ds \<le> 3" and b: "renumber 1 ds = ds"
    by (simp_all add: fb_inv_def)
  have e: "smart_fallback [] stage1 query = [placeholder 1, placeholder 2, placeholder 3]"
    by (simp add: smart_fallback_def ensure_three_emitted upt_rec)
  show ?thesis
    using a e ensure_three_ranks [of ds] ensure_three_emitted [OF a b]
    by (simp add: smart_fallback_def w)
qed

theorem smart_fallback_three_witness:
  "map rank (smart_fallback [] None query_block) = [Some 1, Some 2, Some 3] \<and>
   smart_fallback [] None query_block =
     [\<lparr>rank = Some 1, diagnosis = Some [8212], icd10_code = Some [], explanation = Some []\<rparr>,
      \<lparr>rank = Some 2, diagnosis = Some [8212], icd10_code = Some [], explanation = Some []\<rparr>,
      \<lparr>rank = Some 3, diagnosis = Some [8212], icd10_code = Some [], explanation = Some []\<rparr>]"
  using smart_fallback_three [of "[]" None query_block]
  by (simp add: placeholder_def upt_rec)

section \<open>The order of a protocol's codes in the fallback\<close>




















section \<open>Votes of the local keyword predictor\<close>

lemma votes_bump: "votes (bump c s) x = votes s x + (if x = c then 1 else 0)"
  by (induction s) (auto simp: votes_def)

lemma votes_empty: "votes [] x = 0"
  by (simp add: votes_def)

lemma keys_bump: "fst ` set (bump c s) = insert c (fst ` set s)"
proof (induction s)
  case Nil
  then show ?case by simp
next
  case (Cons a s)
  obtain k v where a: "a = (k, v)" by (cases a)
  show ?case
    using Cons by (cases "k = c") (simp_all add: a insert_commute)
qed

lemma vote_codes_votes:
  "votes (fst (vote_codes st codes)) x = votes (fst st) x + count_list codes x"
  by (induction st codes rule: vote_codes.induct) (simp_all add: votes_bump)

lemma vote_codes_keys:
  "fst ` set (fst (vote_codes st codes)) = fst ` set (fst st) \<union> set codes"
  by (induction st codes rule: vote_codes.induct) (simp_all add: keys_bump)

lemma vote_codes_full: "snd (vote_codes st codes) = snd st \<union> set codes"
  by (induction st codes rule: vote_codes.induct) simp_all

lemma vote_keywords_votes:
  "votes (fst (vote_keywords q codes st kws)) x =
   votes (fst st) x + length (filter (\<lambda>kw. contains (lower kw) q) kws) * count_list codes x"
  by (induction kws arbitrary: st) (simp_all add: vote_codes_votes)

lemma vote_keywords_keys:
  "fst ` set (fst (vote_keywords q codes st kws)) =
   fst ` set (fst st) \<union> (if \<exists>kw\<in>set kws. contains (lower kw) q then set codes else {})"
  by (induction kws arbitrary: st) (auto simp: vote_codes_keys)

lemma vote_keywords_full:
  "snd (vote_keywords q codes st kws) =
   snd st \<union> (if \<exists>kw\<in>set kws. contains (lower kw) q then set codes else {})"
  by (induction kws arbitrary: st) (auto simp: vote_codes_full)

lemma vote_rules_votes:
  "votes (fst (vote_rules q st rules)) x =
   votes (fst st) x +
   (\<Sum>(keywords, codes)\<leftarrow>rules.
      length (filter (\<lambda>kw. contains (lower kw) q) keywords) * count_list codes x)"
  by (induction q st rules rule: vote_rules.induct) (simp_all add: vote_keywords_votes)

lemma vote_rules_keys:
  "fst ` set (fst (vote_rules q st rules)) =
   fst ` set (fst st) \<union>
   {code. \<exists>(keywords, codes)\<in>set rules.
      code \<in> set codes \<and> (\<exists>kw\<in>set keywords. contains (lower kw) q)}"
  by (induction q st rules rule: vote_rules.induct) (auto simp: vote_keywords_keys)

lemma vote_rules_full:
  "snd (vote_rules q st rules) =
   snd st \<union>
   {code. \<exists>(keywords, codes)\<in>set rules.
      code \<in> set codes \<and> (\<exists>kw\<in>set keywords. contains (lower kw) q)}"
  by (induction q st rules rule: vote_rules.induct) (auto simp: vote_keywords_full)

lemma local_predict_full_set:
  "snd (local_predict_codes_full query) =
   {code. \<exists>(keywords, codes)\<in>set KEYWORD_ICD_MAP.
      code \<in> set codes \<and> (\<exists>kw\<in>set keywords. contains (lower kw) (lower query))}"
proof -
  obtain scores full where v: "vote_rules (lower query) ([], {}) KEYWORD_ICD_MAP = (scores, full)"
    by (cases "vote_rules (lower query) ([], {}) KEYWORD_ICD_MAP") auto
  have f: "full = {code. \<exists>(keywords, codes)\<in>set KEYWORD_ICD_MAP.
      code \<in> set codes \<and> (\<exists>kw\<in>set keywords. contains (lower kw) (lower query))}"
    using vote_rules_full [of "lower query" "([], {})" KEYWORD_ICD_MAP] v by simp
  have k: "fst ` set scores = full"
    using vote_rules_keys [of "lower query" "([], {})" KEYWORD_ICD_MAP] v f by simp
  have "snd (local_predict_codes_full query) = (if scores = [] then {} else full)"
    by (simp add: local_predict_codes_full_def Let_def v)
  also have "\<dots> = full"
    using k by auto
  finally show ?thesis
    using f by simp
qed

text \<open>
  C4, as the code has it: a rule gives each code of its list one vote for every keyword of
  the rule that is a substring of the lowercased query (times the code's multiplicity in the
  list), so a rule with two matching keywords gives two votes; the votes add up over the
  rules of the table, and the full code set returned is the set of the codes of the rules
  with a matching keyword.
\<close>

theorem local_predict_votes:
  "votes (fst (vote_keywords (lower query) codes st keywords)) code =
     votes (fst st) code +
     length (filter (\<lambda>kw. contains (lower kw) (lower query)) keywords) * count_list codes code \<and>
   votes (fst (vote_rules (lower query) ([], {}) KEYWORD_ICD_MAP)) code =
     (\<Sum>(keywords, codes)\<leftarrow>KEYWORD_ICD_MAP.
        length (filter (\<lambda>kw. contains (lower kw) (lower query)) keywords) * count_list codes code) \<and>
   snd (local_predict_codes_full query) =
     {code. \<exists>(keywords, codes)\<in>set KEYWORD_ICD_MAP.
        code \<in> set codes \<and> (\<exists>kw\<in>set keywords. contains (lower kw) (lower query))}"
  by (simp add: vote_keywords_votes vote_rules_votes local_predict_full_set votes_empty)

lemma av_block_rule_mem: "av_block_rule \<in> set KEYWORD_ICD_MAP"
  unfolding av_block_rule_def by (rule nth_mem) (simp add: KEYWORD_ICD_MAP_def)

lemma av_block_rule_codes:
  "snd av_block_rule = [cps ''I44.1'', cps ''I44.2'', cps ''I44.0'', cps ''I49.5'']"
  by (simp add: av_block_rule_def KEYWORD_ICD_MAP_def)

lemma av_block_rule_keywords:
  "kw_brady \<in> set (fst av_block_rule)" "kw_pulse \<in> set (fst av_block_rule)"
  by (simp_all add: av_block_rule_def KEYWORD_ICD_MAP_def kw_brady_def kw_pulse_def)

lemma contains_brady:
  "contains (lower kw_brady) (lower query_brady)" "contains (lower kw_pulse) (lower query_brady)"
  by (simp_all add: kw_brady_def kw_pulse_def query_brady_def lower_def lower_cp_def)

lemma av_block_rule_votes:
  "votes (fst (vote_keywords (lower query_brady) (snd av_block_rule) ([], {}) (fst av_block_rule)))
     (cps ''I44.1'') = 2"
  by (simp add: av_block_rule_def KEYWORD_ICD_MAP_def query_brady_def lower_def lower_cp_def
      cps_simps votes_def)

lemma vote_rules_brady:
  "vote_rules (lower query_brady) ([], {}) KEYWORD_ICD_MAP =
     ([(cps ''I44.1'', 2), (cps ''I44.2'', 2), (cps ''I44.0'', 2), (cps ''I49.5'', 2)],
      {cps ''I44.1'', cps ''I44.2'', cps ''I44.0'', cps ''I49.5''})"
  by (simp add: query_brady_def lower_def lower_cp_def KEYWORD_ICD_MAP_def cps_simps) auto

lemma local_predict_brady:
  "local_predict_codes_full query_brady =
     ([cps ''I44.1'', cps ''I49.5''], {cps ''I44.1'', cps ''I44.2'', cps ''I44.0'', cps ''I49.5''})"
  by (simp add: local_predict_codes_full_def vote_rules_brady cps_simps)

text \<open>
  The claim as stated fails: two keywords of the AV block rule occur in the query
  \<open>query_brady\<close>, and the rule alone, from the empty table, gives \<open>I44.1\<close> (which its list
  has once) two votes, not one; no other rule of the table matches, and the table leaves
  \<open>I44.1\<close> with two votes.
\<close>

theorem local_predict_votes_counterexample:
  "av_block_rule \<in> set KEYWORD_ICD_MAP \<and>
   kw_brady \<in> set (fst av_block_rule) \<and> contains (lower kw_brady) (lower query_brady) \<and>
   kw_pulse \<in> set (fst av_block_rule) \<and> contains (lower kw_pulse) (lower query_brady) \<and>
   count_list (snd av_block_rule) (cps ''I44.1'') = 1 \<and>
   votes (fst (vote_keywords (lower query_brady) (snd av_block_rule) ([], {}) (fst av_block_rule)))
     (cps ''I44.1'') = 2 \<and>
   votes (fst (vote_rules (lower query_brady) ([], {}) KEYWORD_ICD_MAP)) (cps ''I44.1'') = 2"
  by (simp add: av_block_rule_mem av_block_rule_keywords contains_brady av_block_rule_votes
      vote_rules_brady)
    (simp add: av_block_rule_codes votes_def cps_simps)

theorem local_predict_votes_witness:
  "(\<Sum>(keywords, codes)\<leftarrow>KEYWORD_ICD_MAP.
      length (filter (\<lambda>kw. contains (lower kw) (lower query_brady)) keywords) *
      count_list codes (cps ''I44.1'')) = 2 \<and>
   snd (local_predict_codes_full query_brady) =
     {cps ''I44.1'', cps ''I44.2'', cps ''I44.0'', cps ''I49.5''}"
proof -
  have v: "votes (fst (vote_rules (lower query_brady) ([], {}) KEYWORD_ICD_MAP)) (cps ''I44.1'') = 2"
    by (simp add: vote_rules_brady votes_def)
  show ?thesis
    using local_predict_votes [of query_brady "[]" "([], {})" "[]" "cps ''I44.1''"] v
    by (simp add: local_predict_brady)
qed

section \<open>The code index after the build\<close>

lemma code_idx_index_codes:
  "code_idx (index_codes c r vs) = foldl code_step (code_idx r) (map (\<lambda>code. (c, code)) (valid_codes vs))"
  by (induction c r vs rule: index_codes.induct) (simp_all add: valid_codes_def code_step_def Let_def)

lemma code_idx_index_chunk:
  "code_idx (index_chunk r c) = foldl code_step (code_idx r) (map (\<lambda>code. (c, code)) (valid_codes (icd_codes c)))"
  by (simp add: index_chunk_def Let_def code_idx_index_codes)

lemma code_idx_foldl:
  "code_idx (foldl index_chunk r cs) = foldl code_step (code_idx r) (code_events cs)"
  by (induction cs arbitrary: r) (simp_all add: code_events_def code_idx_index_chunk)

lemma code_idx_build: "code_idx (build_index cs) = foldl code_step Map.empty (code_events cs)"
  by (simp add: build_index_def code_idx_foldl)

lemma get_add_capped:
  "get_list (add_capped cap key c idx) k =
     (if k = key then (if length (get_list idx key) < cap then get_list idx key @ [c] else get_list idx key)
      else get_list idx k)"
  by (simp add: add_capped_def get_list_def Let_def)

lemma add_capped_dom: "add_capped cap key c idx key \<noteq> None"
  by (simp add: add_capped_def Let_def)

lemma step_mono: "\<exists>ys. get_list (code_step idx e) k = get_list idx k @ ys"
  by (simp add: code_step_def get_add_capped)

lemma foldl_mono: "\<exists>ys. get_list (foldl code_step idx es) k = get_list idx k @ ys"
proof (induction es arbitrary: idx)
  case Nil
  then show ?case by simp
next
  case (Cons e es)
  obtain ys where a: "get_list (code_step idx e) k = get_list idx k @ ys"
    using step_mono by blast
  obtain zs where b: "get_list (foldl code_step (code_step idx e) es) k = get_list (code_step idx e) k @ zs"
    using Cons by blast
  show ?case by (simp add: a b)
qed

lemma step_exact:
  "c \<in> set (get_list (code_step idx (c, code)) (canon code)) \<or>
   3 \<le> length (get_list (code_step idx (c, code)) (canon code))"
  by (auto simp add: code_step_def get_add_capped)

lemma step_prefix:
  "c \<in> set (get_list (code_step idx (c, code)) (take 3 (canon code))) \<or>
   5 \<le> length (get_list (code_step idx (c, code)) (take 3 (canon code)))"
  by (auto simp add: code_step_def get_add_capped)

lemma grow_keeps:
  assumes "c \<in> set (get_list idx k) \<or> n \<le> length (get_list idx k)"
  shows "c \<in> set (get_list (foldl code_step idx es) k) \<or> n \<le> length (get_list (foldl code_step idx es) k)"
proof -
  obtain ys where "get_list (foldl code_step idx es) k = get_list idx k @ ys"
    using foldl_mono by blast
  then show ?thesis using assms by auto
qed

lemma events_exact:
  "(c, code) \<in> set es \<Longrightarrow>
   c \<in> set (get_list (foldl code_step idx es) (canon code)) \<or>
   3 \<le> length (get_list (foldl code_step idx es) (canon code))"
proof (induction es arbitrary: idx)
  case Nil
  then show ?case by simp
next
  case (Cons e es)
  show ?case
  proof (cases "(c, code) \<in> set es")
    case True
    then show ?thesis using Cons.IH by simp
  next
    case False
    then have "e = (c, code)" using Cons.prems by simp
    then show ?thesis
      using grow_keeps [OF step_exact, of c idx code es] by simp
  qed
qed

lemma events_prefix:
  "(c, code) \<in> set es \<Longrightarrow>
   c \<in> set (get_list (foldl code_step idx es) (take 3 (canon code))) \<or>
   5 \<le> length (get_list (foldl code_step idx es) (take 3 (canon code)))"
proof (induction es arbitrary: idx)
  case Nil
  then show ?case by simp
next
  case (Cons e es)
  show ?case
  proof (cases "(c, code) \<in> set es")
    case True
    then show ?thesis using Cons.IH by simp
  next
    case False
    then have "e = (c, code)" using Cons.prems by simp
    then show ?thesis
      using grow_keeps [OF step_prefix, of c idx code es] by simp
  qed
qed

lemma cap_inv_step: "cap_inv idx \<Longrightarrow> cap_inv (code_step idx e)"
  unfolding cap_inv_def code_step_def get_add_capped
  by (auto simp: le_Suc_eq)

lemma cap_inv_foldl: "cap_inv idx \<Longrightarrow> cap_inv (foldl code_step idx es)"
  by (induction es arbitrary: idx) (simp_all add: cap_inv_step)

lemma cap_inv_empty: "cap_inv Map.empty"
  by (simp add: cap_inv_def get_list_def)

lemma from_events_step: "from_events S idx \<Longrightarrow> e \<in> S \<Longrightarrow> from_events S (code_step idx e)"
  unfolding from_events_def code_step_def get_add_capped
  by (cases e) (auto split: if_splits)

lemma from_events_foldl: "from_events S idx \<Longrightarrow> set es \<subseteq> S \<Longrightarrow> from_events S (foldl code_step idx es)"
  by (induction es arbitrary: idx) (simp_all add: from_events_step)

lemma from_events_empty: "from_events S Map.empty"
  by (simp add: from_events_def get_list_def)

lemma valid_codes_iff:
  "code \<in> set (valid_codes vs) \<longleftrightarrow> (\<exists>s. Str s \<in> set vs \<and> strip s \<noteq> [] \<and> code = strip s)"
  by (induction vs) (auto simp: valid_codes_def split: code_val.splits if_splits)

lemma code_events_iff:
  "(c, code) \<in> set (code_events cs) \<longleftrightarrow>
   c \<in> set cs \<and> (\<exists>s. Str s \<in> set (icd_codes c) \<and> strip s \<noteq> [] \<and> code = strip s)"
proof -
  have "(c, code) \<in> set (code_events cs) \<longleftrightarrow> c \<in> set cs \<and> code \<in> set (valid_codes (icd_codes c))"
    by (auto simp: code_events_def)
  then show ?thesis
    by (simp only: valid_codes_iff)
qed

text \<open>
  C8, as the code has it: a valid code (a string that is not blank) of a chunk is registered
  under two keys, its canonical key and the first three characters of that key, and under no
  key of four characters of its own. The chunk is in the list of the canonical key unless
  that list has reached 3 entries, and in the list of the prefix key unless that list has
  reached 5. No list is longer than 5, and none is longer than 3 under a key of more than
  three characters. Every chunk of a list is a chunk of the collection with a valid code whose
  canonical key, or its first three characters, is the key of the list.
\<close>

theorem build_index_code_keys:
  assumes "c \<in> set cs" and "Str s \<in> set (icd_codes c)" and "strip s \<noteq> []"
  shows
    "(c \<in> set (get_list (code_idx (build_index cs)) (canon (strip s))) \<or>
      3 \<le> length (get_list (code_idx (build_index cs)) (canon (strip s)))) \<and>
     (c \<in> set (get_list (code_idx (build_index cs)) (take 3 (canon (strip s)))) \<or>
      5 \<le> length (get_list (code_idx (build_index cs)) (take 3 (canon (strip s))))) \<and>
     (\<forall>k. length (get_list (code_idx (build_index cs)) k) \<le> 5 \<and>
          (3 < length k \<longrightarrow> length (get_list (code_idx (build_index cs)) k) \<le> 3)) \<and>
     (\<forall>k. \<forall>x\<in>set (get_list (code_idx (build_index cs)) k).
          x \<in> set cs \<and>
          (\<exists>t. Str t \<in> set (icd_codes x) \<and> strip t \<noteq> [] \<and>
               (k = canon (strip t) \<or> k = take 3 (canon (strip t)))))"
proof -
  have ev: "(c, strip s) \<in> set (code_events cs)"
    using assms by (auto simp: code_events_iff)
  have a: "c \<in> set (get_list (code_idx (build_index cs)) (canon (strip s))) \<or>
      3 \<le> length (get_list (code_idx (build_index cs)) (canon (strip s)))"
    unfolding code_idx_build using events_exact [OF ev] .
  have b: "c \<in> set (get_list (code_idx (build_index cs)) (take 3 (canon (strip s)))) \<or>
      5 \<le> length (get_list (code_idx (build_index cs)) (take 3 (canon (strip s))))"
    unfolding code_idx_build using events_prefix [OF ev] .
  have "cap_inv (code_idx (build_index cs))"
    unfolding code_idx_build by (rule cap_inv_foldl [OF cap_inv_empty])
  then have c: "\<forall>k. length (get_list (code_idx (build_index cs)) k) \<le> 5 \<and>
          (3 < length k \<longrightarrow> length (get_list (code_idx (build_index cs)) k) \<le> 3)"
    by (simp add: cap_inv_def)
  have "from_events (set (code_events cs)) (code_idx (build_index cs))"
    unfolding code_idx_build by (rule from_events_foldl [OF from_events_empty]) simp
  then have d: "\<forall>k. \<forall>x\<in>set (get_list (code_idx (build_index cs)) k).
          x \<in> set cs \<and>
          (\<exists>t. Str t \<in> set (icd_codes x) \<and> strip t \<noteq> [] \<and>
               (k = canon (strip t) \<or> k = take 3 (canon (strip t))))"
    unfolding from_events_def code_events_iff by blast
  show ?thesis
    using a b c d by blast
qed

lemma events_femur: "code_events [chunk_femur] = [(chunk_femur, cps ''S72.00'')]"
  by (simp add: code_events_def valid_codes_def chunk_femur_def raw_chunk_def strip_def cps_simps
      is_space_def)

lemma events_ms:
  "code_events [chunk_ms1, chunk_ms2] = [(chunk_ms1, cps ''G35''), (chunk_ms2, cps ''G35'')]"
  by (simp add: code_events_def valid_codes_def chunk_ms1_def chunk_ms2_def raw_chunk_def
      strip_def cps_simps is_space_def)

lemma canon_femur: "canon (cps ''S72.00'') = cps ''S7200''" "canon (cps ''G35'') = cps ''G35''"
  "strip (cps ''S72.00'') = cps ''S72.00''"
  by (simp_all add: canon_eval)

lemma code_idx_femur:
  "get_list (code_idx (build_index [chunk_femur])) (cps ''S7200'') = [chunk_femur]"
  "get_list (code_idx (build_index [chunk_femur])) (cps ''S72'') = [chunk_femur]"
  "code_idx (build_index [chunk_femur]) (cps ''S720'') = None"
  by (simp_all add: code_idx_build events_femur code_step_def canon_eval add_capped_def
      get_list_def)

lemma code_idx_ms:
  "get_list (code_idx (build_index [chunk_ms1, chunk_ms2])) (cps ''G35'') =
     [chunk_ms1, chunk_ms1, chunk_ms2, chunk_ms2]"
  by (simp add: code_idx_build events_ms code_step_def canon_eval add_capped_def
      get_list_def)

text \<open>
  The claim as stated fails. The build of the one chunk \<open>chunk_femur\<close> registers its code
  \<open>S72.00\<close> under \<open>S7200\<close> and \<open>S72\<close> and leaves the four-character prefix \<open>S720\<close>
  without an entry. The exact key \<open>G35\<close> is its own prefix key: each chunk is appended twice,
  and after two chunks the list of this exact key has four entries.
\<close>

theorem build_index_code_keys_counterexample:
  "Str (cps ''S72.00'') \<in> set (icd_codes chunk_femur) \<and>
   take 4 (canon (cps ''S72.00'')) = cps ''S720'' \<and>
   code_idx (build_index [chunk_femur]) (cps ''S720'') = None \<and>
   canon (cps ''G35'') = cps ''G35'' \<and>
   length (get_list (code_idx (build_index [chunk_ms1, chunk_ms2])) (cps ''G35'')) = 4"
  by (simp add: code_idx_femur code_idx_ms canon_femur)
    (simp add: chunk_femur_def raw_chunk_def cps_simps)

theorem build_index_code_keys_witness:
  "chunk_femur \<in> set [chunk_femur] \<and> Str (cps ''S72.00'') \<in> set (icd_codes chunk_femur) \<and>
   strip (cps ''S72.00'') \<noteq> [] \<and>
   chunk_femur \<in> set (get_list (code_idx (build_index [chunk_femur])) (cps ''S7200'')) \<and>
   chunk_femur \<in> set (get_list (code_idx (build_index [chunk_femur])) (cps ''S72'')) \<and>
   length (get_list (code_idx (build_index [chunk_femur])) (cps ''S7200'')) \<le> 3"
proof -
  have a: "chunk_femur \<in> set [chunk_femur]" by simp
  have b: "Str (cps ''S72.00'') \<in> set (icd_codes chunk_femur)"
    by (simp add: chunk_femur_def raw_chunk_def)
  have c: "strip (cps ''S72.00'') \<noteq> []"
    by (simp add: strip_def cps_simps is_space_def)
  show ?thesis
    using build_index_code_keys [OF a b c] b c
    by (simp add: code_idx_femur canon_femur)
qed

section \<open>Rounding to doubles\<close>

lemma fl_exact: "fl exact x = x" "log1p exact x = ln (1 + x)"
  by (simp_all add: exact_def)

lemma fl_binary64: "fl (binary64 lp) = round_double" "log1p (binary64 lp) = lp"
  by (simp_all add: binary64_def)

lemma binade_eq:
  assumes "2 powi k \<le> \<bar>x\<bar>" and "\<bar>x\<bar> < 2 powi (k + 1)"
  shows "binade x = k"
proof -
  have p: "0 < \<bar>x\<bar>"
    using assms(1) by (smt (verit) zero_less_power_int)
  have a: "(2::real) powr real_of_int k = 2 powi k"
    by (rule powr_real_of_int') simp_all
  have "(2::real) powr real_of_int (k + 1) = 2 powi (k + 1)"
    by (rule powr_real_of_int') simp_all
  then have b: "(2::real) powr (real_of_int k + 1) = 2 powi (k + 1)"
    by simp
  have "\<lfloor>log 2 \<bar>x\<bar>\<rfloor> = k"
    unfolding floor_log_eq_powr_iff [OF p, of 2, simplified] a b using assms by blast
  then show ?thesis
    by (simp only: binade_def)
qed

lemma round_double_eval:
  assumes "2 powi k \<le> \<bar>x\<bar>" and "\<bar>x\<bar> < 2 powi (k + 1)" and "- 1022 \<le> k"
    and "round_half_even (x / 2 powi (k - 52)) = m"
  shows "round_double x = of_int m * 2 powi (k - 52)"
proof -
  have "x \<noteq> 0"
    using assms(1) by (smt (verit) zero_less_power_int)
  then show ?thesis
    using assms(3,4) by (simp add: round_double_def binade_eq [OF assms(1,2)] max_def Let_def)
qed

lemma rd_two_fifths: "round_double (real 2 / 5) = 3602879701896397 / 2 ^ 53"
  by (subst round_double_eval [where k = "- 2" and m = 7205759403792794])
    (simp_all add: round_half_even_def)

lemma log1p_example_at: "log1p_example (3602879701896397 / 2 ^ 53) = 378834059866953 / 2 ^ 50"
  by (simp add: log1p_example_def)

lemma rd_one_plus: "round_double (1 + 378834059866953 / 2 ^ 50) = 1504733966709577 / 2 ^ 50"
  by (subst round_double_eval [where k = "0" and m = 6018935866838308])
    (simp_all add: round_half_even_def)

lemma rd_penalty: "round_double (1 / (1504733966709577 / 2 ^ 50)) = 3369766691716859 / 2 ^ 52"
  by (subst round_double_eval [where k = "- 1" and m = 6739533383433718])
    (simp_all add: round_half_even_def)

lemma rd_penalty_id: "round_double (3369766691716859 / 2 ^ 52) = 3369766691716859 / 2 ^ 52"
  by (subst round_double_eval [where k = "- 1" and m = 6739533383433718])
    (simp_all add: round_half_even_def)



lemma rd_rank: "round_double (1 / (real 1 + 60)) = 4725088133634619 / 2 ^ 58"
  by (subst round_double_eval [where k = "- 6" and m = 4725088133634619])
    (simp_all add: round_half_even_def)

lemma rd_contribution: "round_double (4725088133634619 / 2 ^ 58 * (3369766691716859 / 2 ^ 52)) = 7070985844914065 / 2 ^ 59"
  by (subst round_double_eval [where k = "- 7" and m = 7070985844914065])
    (simp_all add: round_half_even_def)






lemma rd_rank0: "round_double (1 / (real 0 + 60)) = 4803839602528529 / 2 ^ 58"
  by (subst round_double_eval [where k = "- 6" and m = 4803839602528529])
    (simp_all add: round_half_even_def)

lemma rd_contribution0: "round_double (4803839602528529 / 2 ^ 58 * (3369766691716859 / 2 ^ 52)) = 3594417804497983 / 2 ^ 58"
  by (subst round_double_eval [where k = "- 7" and m = 7188835608995966])
    (simp_all add: round_half_even_def)

lemma rd_contribution0_id: "round_double (3594417804497983 / 2 ^ 58) = 3594417804497983 / 2 ^ 58"
  by (subst round_double_eval [where k = "- 7" and m = 7188835608995966])
    (simp_all add: round_half_even_def)

lemma rd_sum: "round_double (3594417804497983 / 2 ^ 58 + 7070985844914065 / 2 ^ 59) = 891238840869377 / 2 ^ 55"
  by (subst round_double_eval [where k = "- 6" and m = 7129910726955016])
    (simp_all add: round_half_even_def)

section \<open>Deprioritizing a protocol changes only its damping factor\<close>
















section \<open>The fused scores at concrete rankings\<close>

lemma pid_n_ms: "pid_n (build_index [chunk_ms1, chunk_ms2]) (cps ''p_ms'') = Some 2"
  by (simp add: build_index_def index_chunk_def Let_def chunk_ms1_def chunk_ms2_def raw_chunk_def
      strip_def cps_simps is_space_def)


lemma size_penalty_exact: "size_penalty exact n = 1 / (1 + ln (1 + real n / 5))"
  by (simp add: size_penalty_def fl_exact)

lemma size_penalty_pos: "0 < size_penalty exact n"
proof -
  have "0 \<le> ln (1 + real n / 5)"
    by (rule ln_ge_zero) simp
  then show ?thesis
    by (simp add: size_penalty_exact add_pos_nonneg)
qed

lemma ms_fields:
  "protocol_id chunk_ms1 = cps ''p_ms''" "protocol_id chunk_ms2 = cps ''p_ms''"
  "protocol_id chunk_flu = cps ''p_flu''" "cps ''p_flu'' \<noteq> cps ''p_ms''"
  "cps ''p_ms'' \<noteq> cps ''p_flu''"
  by (simp_all add: chunk_ms1_def chunk_ms2_def chunk_flu_def raw_chunk_def cps_simps)

lemma damping_ms:
  "damping a (build_index [chunk_ms1, chunk_ms2]) {} (cps ''p_ms'') = fl a (size_penalty a 2)"
  "damping a (build_index [chunk_ms1, chunk_ms2]) {cps ''p_ms''} (cps ''p_ms'') =
     fl a (size_penalty a 2 * fl a (1 / 10))"
  by (simp_all add: damping_def pid_n_ms)


lemmas fuse_eval = fuse_def add_score_def rrf_score_of_def Let_def ms_fields

lemma fuse_bm25_twice:
  "rrf_score_of (fuse a (\<lambda>t. False) (build_index [chunk_ms1, chunk_ms2]) {} []
      [chunk_ms1, chunk_ms2]) (cps ''p_ms'') =
   fl a (fl a (contribution a 0 (fl a (size_penalty a 2))) +
         contribution a 1 (fl a (size_penalty a 2)))"
  by (simp add: fuse_eval damping_ms)

lemma fuse_dense_once:
  "rrf_score_of (fuse a (\<lambda>t. False) (build_index [chunk_ms1, chunk_ms2]) {}
      [chunk_ms1, chunk_ms2] []) (cps ''p_ms'') =
   fl a (contribution a 0 (fl a (size_penalty a 2)))"
  by (simp add: fuse_eval damping_ms)



lemma penalty_double: "size_penalty (binary64 log1p_example) 2 = 3369766691716859 / 2 ^ 52"
  by (simp only: size_penalty_def fl_binary64 rd_two_fifths log1p_example_at rd_one_plus
      rd_penalty)





lemma twice_not_once: "(1 / 60 + 1 / 61) * size_penalty exact 2 \<noteq> (1 / 60) * size_penalty exact 2"
  using size_penalty_pos [of 2] by simp

lemma fuse_bm25_twice_exact:
  "rrf_score_of (fuse exact (\<lambda>t. False) (build_index [chunk_ms1, chunk_ms2]) {} []
      [chunk_ms1, chunk_ms2]) (cps ''p_ms'') = (1 / 60 + 1 / 61) * size_penalty exact 2"
  by (simp add: fuse_bm25_twice contribution_def fl_exact algebra_simps)

lemma fuse_dense_once_exact:
  "rrf_score_of (fuse exact (\<lambda>t. False) (build_index [chunk_ms1, chunk_ms2]) {}
      [chunk_ms1, chunk_ms2] []) (cps ''p_ms'') = (1 / 60) * size_penalty exact 2"
  by (simp add: fuse_dense_once contribution_def fl_exact algebra_simps)

lemma fuse_bm25_twice_double:
  "rrf_score_of (fuse (binary64 log1p_example) (\<lambda>t. False) (build_index [chunk_ms1, chunk_ms2])
      {} [] [chunk_ms1, chunk_ms2]) (cps ''p_ms'') = 891238840869377 / 2 ^ 55"
  by (simp only: fuse_bm25_twice contribution_def penalty_double fl_binary64 rd_penalty_id
      rd_rank0 rd_contribution0 rd_contribution0_id rd_rank rd_contribution rd_sum)

lemma fuse_dense_once_double:
  "rrf_score_of (fuse (binary64 log1p_example) (\<lambda>t. False) (build_index [chunk_ms1, chunk_ms2])
      {} [chunk_ms1, chunk_ms2] []) (cps ''p_ms'') = 3594417804497983 / 2 ^ 58"
  by (simp only: fuse_dense_once contribution_def penalty_double fl_binary64 rd_penalty_id
      rd_rank0 rd_contribution0 rd_contribution0_id)

text \<open>
  C1, at two chunks of one protocol: both are not junk and hold the ranks 0 and 1. When they
  are the BM25 ranking (and the dense ranking is empty) the protocol's score is the sum of
  the contributions of both ranks; when they are the dense ranking it is the contribution of
  rank 0 alone, which is what the claim states for either ranking. This holds in every
  arithmetic; in exact arithmetic the two scores are \<open>(1/60 + 1/61) p\<close> and \<open>1/60 p\<close> with
  \<open>p = 1 / (1 + ln (1 + 2/5))\<close>, in doubles \<open>0.024736847039335458\<close> and
  \<open>0.012470641895863329\<close>.
\<close>

theorem rrf_bm25_counts_every_hit:
  "protocol_id chunk_ms1 = cps ''p_ms'' \<and> protocol_id chunk_ms2 = cps ''p_ms'' \<and>
   rrf_score_of (fuse a (\<lambda>t. False) (build_index [chunk_ms1, chunk_ms2]) {} []
      [chunk_ms1, chunk_ms2]) (cps ''p_ms'') =
     fl a (fl a (contribution a 0 (fl a (size_penalty a 2))) +
           contribution a 1 (fl a (size_penalty a 2))) \<and>
   rrf_score_of (fuse a (\<lambda>t. False) (build_index [chunk_ms1, chunk_ms2]) {}
      [chunk_ms1, chunk_ms2] []) (cps ''p_ms'') =
     fl a (contribution a 0 (fl a (size_penalty a 2))) \<and>
   rrf_score_of (fuse exact (\<lambda>t. False) (build_index [chunk_ms1, chunk_ms2]) {} []
      [chunk_ms1, chunk_ms2]) (cps ''p_ms'') = (1 / 60 + 1 / 61) * size_penalty exact 2 \<and>
   rrf_score_of (fuse exact (\<lambda>t. False) (build_index [chunk_ms1, chunk_ms2]) {} []
      [chunk_ms1, chunk_ms2]) (cps ''p_ms'') \<noteq> (1 / 60) * size_penalty exact 2 \<and>
   rrf_score_of (fuse exact (\<lambda>t. False) (build_index [chunk_ms1, chunk_ms2]) {}
      [chunk_ms1, chunk_ms2] []) (cps ''p_ms'') = (1 / 60) * size_penalty exact 2 \<and>
   size_penalty exact 2 = 1 / (1 + ln (1 + 2 / 5)) \<and>
   rrf_score_of (fuse (binary64 log1p_example) (\<lambda>t. False) (build_index [chunk_ms1, chunk_ms2])
      {} [] [chunk_ms1, chunk_ms2]) (cps ''p_ms'') = 891238840869377 / 2 ^ 55 \<and>
   rrf_score_of (fuse (binary64 log1p_example) (\<lambda>t. False) (build_index [chunk_ms1, chunk_ms2])
      {} [chunk_ms1, chunk_ms2] []) (cps ''p_ms'') = 3594417804497983 / 2 ^ 58"
proof -
  have e: "size_penalty exact 2 = 1 / (1 + ln (1 + 2 / 5))"
    by (simp add: size_penalty_exact)
  have ne: "rrf_score_of (fuse exact (\<lambda>t. False) (build_index [chunk_ms1, chunk_ms2]) {} []
      [chunk_ms1, chunk_ms2]) (cps ''p_ms'') \<noteq> (1 / 60) * size_penalty exact 2"
    unfolding fuse_bm25_twice_exact by (rule twice_not_once)
  show ?thesis
    by (intro conjI ms_fields(1) ms_fields(2) fuse_bm25_twice fuse_dense_once
        fuse_bm25_twice_exact ne fuse_dense_once_exact e fuse_bm25_twice_double
        fuse_dense_once_double)
qed

section \<open>The merged candidates have one entry per protocol, from the first strategy\<close>

lemma add_first_seen:
  "add (seen, acc) cs = (seen \<union> protocol_id ` set cs, acc @ first_seen seen cs)"
  by (induction cs arbitrary: seen acc) (auto simp: Let_def)

lemma first_seen_append:
  "first_seen seen (xs @ ys) = first_seen seen xs @ first_seen (seen \<union> protocol_id ` set xs) ys"
  by (induction xs arbitrary: seen) (auto simp: insert_absorb)

lemma foldl_add:
  "foldl add (seen, acc) srcs =
     (seen \<union> protocol_id ` set (concat srcs), acc @ first_seen seen (concat srcs))"
  by (induction srcs arbitrary: seen acc) (simp_all add: add_first_seen first_seen_append image_Un Un_assoc)

lemma first_seen_pids: "protocol_id ` set (first_seen seen xs) = protocol_id ` set xs - seen"
  by (induction xs arbitrary: seen) auto

lemma first_seen_distinct: "distinct (map protocol_id (first_seen seen xs))"
proof (induction xs arbitrary: seen)
  case Nil
  then show ?case by simp
next
  case (Cons c cs)
  have "protocol_id c \<notin> protocol_id ` set (first_seen (insert (protocol_id c) seen) cs)"
    by (simp add: first_seen_pids)
  then show ?case using Cons by simp
qed

lemma first_seen_find:
  "c \<in> set (first_seen seen xs) \<Longrightarrow> find (\<lambda>x. protocol_id x = protocol_id c) xs = Some c"
proof (induction xs arbitrary: seen)
  case Nil
  then show ?case by simp
next
  case (Cons a xs)
  show ?case
  proof (cases "protocol_id a \<in> seen")
    case True
    then have m: "c \<in> set (first_seen seen xs)" using Cons.prems by simp
    have "protocol_id c \<in> protocol_id ` set xs - seen"
      using m first_seen_pids [of seen xs] by blast
    then have "protocol_id a \<noteq> protocol_id c" using True by auto
    then show ?thesis using Cons.IH [OF m] by simp
  next
    case False
    show ?thesis
    proof (cases "c = a")
      case True
      then show ?thesis by simp
    next
      case ne: False
      then have m: "c \<in> set (first_seen (insert (protocol_id a) seen) xs)"
        using Cons.prems False by simp
      have "protocol_id c \<in> protocol_id ` set xs - insert (protocol_id a) seen"
        using m first_seen_pids [of "insert (protocol_id a) seen" xs] by blast
      then have "protocol_id a \<noteq> protocol_id c" by auto
      then show ?thesis using Cons.IH [OF m] by simp
    qed
  qed
qed

lemma find_append_first:
  "find P (xs @ ys) = (case find P xs of None \<Rightarrow> find P ys | Some x \<Rightarrow> Some x)"
  by (induction xs) auto

lemma find_none: "find P xs = None \<longleftrightarrow> (\<forall>x\<in>set xs. \<not> P x)"
  by (induction xs) auto

lemma find_concat_at:
  assumes "find P (concat srcs) = Some e" and "i < length srcs"
    and "\<exists>x\<in>set (srcs ! i). P x" and "\<forall>j<i. \<forall>x\<in>set (srcs ! j). \<not> P x"
  shows "find P (srcs ! i) = Some e"
  using assms
proof (induction srcs arbitrary: i)
  case Nil
  then show ?case by simp
next
  case (Cons s srcs)
  show ?case
  proof (cases i)
    case 0
    then have "find P s \<noteq> None"
      using Cons.prems(3) by (simp add: find_none)
    then show ?thesis
      using Cons.prems(1) 0 by (auto simp: find_append_first split: option.splits)
  next
    case (Suc k)
    have "\<forall>x\<in>set s. \<not> P x"
      using Cons.prems(4) Suc by (metis nth_Cons_0 zero_less_Suc)
    then have n: "find P s = None" by (simp add: find_none)
    have a: "find P (concat srcs) = Some e"
      using Cons.prems(1) n by (simp add: find_append_first)
    have b: "\<forall>j<k. \<forall>x\<in>set (srcs ! j). \<not> P x"
      using Cons.prems(4) Suc by (metis Suc_less_eq nth_Cons_Suc)
    show ?thesis
      using Cons.IH [OF a _ _ b] Cons.prems(2,3) Suc by simp
  qed
qed

lemma enrich_tag: "retrieval_source (enrich r c t) = Some t"
  by (simp add: enrich_def)

lemma title_hits_tag:
  "\<forall>c\<in>set results. retrieval_source c = Some (cps ''title_lookup'') \<Longrightarrow>
   \<forall>c\<in>set (title_hits is_junk r seen results pids). retrieval_source c = Some (cps ''title_lookup'')"
proof (induction pids arbitrary: seen results)
  case Nil
  then show ?case by simp
next
  case (Cons pid pids)
  show ?case
  proof (cases "pid \<in> seen")
    case True
    then show ?thesis using Cons by simp
  next
    case False
    let ?new = "case find (\<lambda>c. protocol_id c = pid \<and> \<not> is_junk (chunk_text c)) (chunks r) of
                  None \<Rightarrow> results
                | Some c \<Rightarrow> results @ [enrich r c (cps ''title_lookup'')]"
    have "\<forall>c\<in>set ?new. retrieval_source c = Some (cps ''title_lookup'')"
      using Cons.prems by (auto simp: enrich_tag split: option.splits)
    then show ?thesis
      using False Cons.IH [of ?new "insert pid seen"] by simp
  qed
qed

lemma title_tag:
  "\<forall>c\<in>set (retrieve_by_title_words is_junk r q). retrieval_source c = Some (cps ''title_lookup'')"
  unfolding retrieve_by_title_words_def Let_def by (rule title_hits_tag) simp

lemma code_hits_tag:
  "\<forall>c\<in>set (snd st). retrieval_source c = Some (cps ''code_lookup'') \<Longrightarrow>
   \<forall>c\<in>set (snd (code_hits is_junk r st hits)). retrieval_source c = Some (cps ''code_lookup'')"
  by (induction is_junk r st hits rule: code_hits.induct) (auto simp: enrich_tag Let_def)

lemma code_fold_tag:
  "\<forall>c\<in>set (snd st). retrieval_source c = Some (cps ''code_lookup'') \<Longrightarrow>
   \<forall>c\<in>set (snd (foldl (\<lambda>st key. code_hits is_junk r st (get_list (code_idx r) key)) st ks)).
      retrieval_source c = Some (cps ''code_lookup'')"
proof (induction ks arbitrary: st)
  case Nil
  then show ?case by simp
next
  case (Cons k ks)
  show ?case
    using Cons.IH [OF code_hits_tag [OF Cons.prems]] by simp
qed

lemma codes_tag:
  "\<forall>c\<in>set (retrieve_by_codes is_junk r codes). retrieval_source c = Some (cps ''code_lookup'')"
  unfolding retrieve_by_codes_def by (rule code_fold_tag) simp

lemma semantic_tag:
  "\<forall>c\<in>set (semantic e q k). retrieval_source c = Some (cps ''semantic'')"
  by (auto simp: semantic_def retrieve_semantic_def fused_results_def enrich_tag split: option.splits)

lemma sources_tag:
  assumes "i < length (candidate_sources e query candidate_codes hyde_query extra_queries)"
  shows "\<forall>c\<in>set (candidate_sources e query candidate_codes hyde_query extra_queries ! i).
           retrieval_source c = Some (source_tag i)"
proof -
  consider "i = 0" | "i = 1" | "i = 2" | "i = 3" | "4 \<le> i" by linarith
  then show ?thesis
  proof cases
    case 1
    then show ?thesis
      using title_tag by (simp add: candidate_sources_def Let_def source_tag_def)
  next
    case 2
    show ?thesis
    proof (cases candidate_codes)
      case None
      then show ?thesis using 2 by (simp add: candidate_sources_def Let_def)
    next
      case (Some codes)
      then show ?thesis
        using 2 codes_tag [of "junk_filter e" "corpus_index e" codes]
        by (simp add: candidate_sources_def Let_def source_tag_def)
    qed
  next
    case 3
    then show ?thesis
      using semantic_tag by (simp add: candidate_sources_def Let_def source_tag_def)
  next
    case 4
    show ?thesis
    proof (cases hyde_query)
      case None
      then show ?thesis using 4 by (simp add: candidate_sources_def Let_def)
    next
      case (Some h)
      then show ?thesis
        using 4 semantic_tag [of e h 60]
        by (simp add: candidate_sources_def Let_def source_tag_def)
    qed
  next
    case 5
    then obtain k where k: "i = 4 + k" using le_Suc_ex by blast
    have t: "source_tag i = cps ''semantic''"
      using 5 by (simp add: source_tag_def)
    show ?thesis
    proof (cases extra_queries)
      case None
      then show ?thesis using assms k by (simp add: candidate_sources_def Let_def)
    next
      case (Some eqs)
      have kl: "k < length eqs"
        using assms k Some by (simp add: candidate_sources_def Let_def)
      have n: "candidate_sources e query candidate_codes hyde_query extra_queries ! i =
               (if eqs ! k \<noteq> [] \<and> eqs ! k \<noteq> query then semantic e (eqs ! k) 40 else [])"
        using kl by (simp add: candidate_sources_def Let_def Some k nth_append)
      show ?thesis
        unfolding n t using semantic_tag [of e "eqs ! k" 40] by simp
    qed
  qed
qed

text \<open>
  C2: for every query and all results of the strategies, the merged list has at most one
  entry per protocol and covers the protocols of all sources; the entry of a protocol is the
  chunk that the first strategy in priority order with a chunk of this protocol produced for
  it, unchanged (so a later strategy neither replaces it nor gives it a score), and its tag
  is the tag of that strategy: \<open>title_lookup\<close> for the first, \<open>code_lookup\<close> for the
  second, \<open>semantic\<close> for the three kinds of semantic search.
\<close>

theorem retrieve_merge_dedup:
  "distinct (map protocol_id (retrieve_candidates e query candidate_codes hyde_query extra_queries)) \<and>
   protocol_id ` set (retrieve_candidates e query candidate_codes hyde_query extra_queries) =
     protocol_id ` set (concat (candidate_sources e query candidate_codes hyde_query extra_queries)) \<and>
   (\<forall>c\<in>set (retrieve_candidates e query candidate_codes hyde_query extra_queries).
      \<forall>i<length (candidate_sources e query candidate_codes hyde_query extra_queries).
        protocol_id c \<in> protocol_id ` set (candidate_sources e query candidate_codes hyde_query extra_queries ! i) \<and>
        (\<forall>j<i. protocol_id c \<notin> protocol_id ` set (candidate_sources e query candidate_codes hyde_query extra_queries ! j)) \<longrightarrow>
        find (\<lambda>x. protocol_id x = protocol_id c)
          (candidate_sources e query candidate_codes hyde_query extra_queries ! i) = Some c \<and>
        retrieval_source c = Some (source_tag i))"
proof -
  let ?srcs = "candidate_sources e query candidate_codes hyde_query extra_queries"
  let ?m = "retrieve_candidates e query candidate_codes hyde_query extra_queries"
  have m: "?m = first_seen {} (concat ?srcs)"
    by (simp add: retrieve_candidates_def foldl_add)
  have a: "distinct (map protocol_id ?m)"
    unfolding m by (rule first_seen_distinct)
  have b: "protocol_id ` set ?m = protocol_id ` set (concat ?srcs)"
    unfolding m by (simp add: first_seen_pids)
  have c: "find (\<lambda>x. protocol_id x = protocol_id c) (?srcs ! i) = Some c \<and>
           retrieval_source c = Some (source_tag i)"
    if c: "c \<in> set ?m" and i: "i < length ?srcs"
      and h: "protocol_id c \<in> protocol_id ` set (?srcs ! i)"
      and l: "\<forall>j<i. protocol_id c \<notin> protocol_id ` set (?srcs ! j)" for c i
  proof -
    have f: "find (\<lambda>x. protocol_id x = protocol_id c) (concat ?srcs) = Some c"
      using c unfolding m by (rule first_seen_find)
    have ex: "\<exists>x\<in>set (?srcs ! i). protocol_id x = protocol_id c"
      using h by auto
    have no: "\<forall>j<i. \<forall>x\<in>set (?srcs ! j). \<not> protocol_id x = protocol_id c"
      using l by (metis image_eqI)
    have g: "find (\<lambda>x. protocol_id x = protocol_id c) (?srcs ! i) = Some c"
      by (rule find_concat_at [OF f i ex no])
    then have "c \<in> set (?srcs ! i)"
      by (metis find_Some_iff nth_mem)
    then have "retrieval_source c = Some (source_tag i)"
      using sources_tag [OF i] by blast
    then show ?thesis using g by simp
  qed
  show ?thesis
    using a b c by blast
qed

lemma merge_example:
  "map (\<lambda>c. (protocol_id c, retrieval_source c, rrf_score c = None))
     (retrieve_candidates env_example query_ms (Some [cps ''S72.0'']) (Some query_hyde) None) =
   [(cps ''p_ms'', Some (cps ''title_lookup''), True),
    (cps ''p_femur'', Some (cps ''code_lookup''), True),
    (cps ''p_flu'', Some (cps ''semantic''), False)]"
  by (simp add: retrieve_candidates_def candidate_sources_def env_example_def query_ms_def
      query_hyde_def build_index_def index_chunk_def Let_def chunk_ms1_def chunk_ms2_def
      chunk_femur_def chunk_flu_def raw_chunk_def reformulate_query_def
      retrieve_by_title_words_def retrieve_by_codes_def semantic_def retrieve_semantic_def
      fused_results_def fuse_def add_score_def damping_def contribution_def size_penalty_def
      fl_exact rrf_score_of_def enrich_def
      code_keys_def canon_eval lower_def lower_cp_def findall_def is_alpha_cp_def replace_def
      get_list_def add_capped_def)

theorem retrieve_merge_dedup_witness:
  "distinct (map protocol_id
     (retrieve_candidates env_example query_ms (Some [cps ''S72.0'']) (Some query_hyde) None)) \<and>
   map (\<lambda>c. (protocol_id c, retrieval_source c, rrf_score c = None))
     (retrieve_candidates env_example query_ms (Some [cps ''S72.0'']) (Some query_hyde) None) =
   [(cps ''p_ms'', Some (cps ''title_lookup''), True),
    (cps ''p_femur'', Some (cps ''code_lookup''), True),
    (cps ''p_flu'', Some (cps ''semantic''), False)]"
  using retrieve_merge_dedup
    [of env_example query_ms "Some [cps ''S72.0'']" "Some query_hyde" None]
  by (simp only: merge_example)

section \<open>A top-level array of objects does not reach the parser\<close>

lemma prepare_text_array: "prepare text_array = text_cut"
  by (simp add: prepare_def text_array_def text_cut_def strip_def is_space_def brace_span_def)

text \<open>
  C10, at an array of two objects: the text does not start with a brace, so the brace pattern
  cuts it from its first opening brace to its last closing brace, and the parser is given
  \<open>text_cut\<close> instead of the array; what is returned is what \<open>finish\<close> makes of the parser's
  answer on \<open>text_cut\<close>, and nothing when the parser raises. The branch for a parsed list
  would have given the two objects the ranks 1 and 2.
\<close>

theorem extract_json_array_cut:
  "prepare text_array = text_cut \<and>
   extract_json loads text_array = finish (loads text_cut) \<and>
   finish None = None \<and>
   finish (Some (JArr [JObj [(cps ''diagnosis'', JStr (cps ''A''))],
                       JObj [(cps ''diagnosis'', JStr (cps ''B''))]])) =
     Some (JObj [(cps ''diagnoses'',
       JArr [JObj [(cps ''diagnosis'', JStr (cps ''A'')), (cps ''rank'', JInt 1)],
             JObj [(cps ''diagnosis'', JStr (cps ''B'')), (cps ''rank'', JInt 2)]])])"
  by (simp add: extract_json_def prepare_text_array finish_def enumerate_eq_zip cps_simps)
    (simp add: text_array_def)

end
